theory Spec2Isabelle
  imports Complex_Main
begin

section \<open>JavaScript values and library functions used by the sources\<close>

text \<open>
  A JavaScript string is a \<^typ>\<open>string\<close>: the list of its code units, each a
  \<^typ>\<open>char\<close>, so the strings of this development are those whose code units lie
  below 256 (Basic Latin and Latin-1 Supplement). A \<open>number\<close> is a \<^typ>\<open>real\<close> where
  it is a measurement and a \<^typ>\<open>nat\<close> where it is a size or a clock reading in
  milliseconds. An optional property (\<open>name?: T\<close>) is an \<^typ>\<open>'a option\<close>, with
  \<open>undefined\<close> as \<^term>\<open>None\<close>. Exceptions are values of \<open>js_error\<close>, and a
  computation that may throw returns \<open>js_error + 'a\<close>.
\<close>

datatype js_error =
    SyntaxError
  | Error string
  | ModelValidationError string

text \<open>
  \<open>String.prototype.toLowerCase\<close>, which follows the Unicode case mapping. Below 256 it
  maps the letters A to Z and the capital letters of Latin-1 (U+00C0 to U+00DE, the
  multiplication sign U+00D7 apart) to the small letter 32 places on, and keeps every
  other code unit; no code unit below 256 grows or vanishes. From 256 on, out of the
  reach of \<^typ>\<open>char\<close>, the mapping gives a code unit below 128 in two cases: U+212A
  KELVIN SIGN becomes \<open>k\<close>, and U+0130 becomes \<open>i\<close> followed by U+0307.
\<close>

definition toLowerCase_char :: "char \<Rightarrow> char" where
  "toLowerCase_char c =
     (case map_of
             (zip (''ABCDEFGHIJKLMNOPQRSTUVWXYZ'' @
                   [CHR 0xC0, CHR 0xC1, CHR 0xC2, CHR 0xC3, CHR 0xC4, CHR 0xC5, CHR 0xC6,
                    CHR 0xC7, CHR 0xC8, CHR 0xC9, CHR 0xCA, CHR 0xCB, CHR 0xCC, CHR 0xCD,
                    CHR 0xCE, CHR 0xCF, CHR 0xD0, CHR 0xD1, CHR 0xD2, CHR 0xD3, CHR 0xD4,
                    CHR 0xD5, CHR 0xD6, CHR 0xD8, CHR 0xD9, CHR 0xDA, CHR 0xDB, CHR 0xDC,
                    CHR 0xDD, CHR 0xDE])
                  (''abcdefghijklmnopqrstuvwxyz'' @
                   [CHR 0xE0, CHR 0xE1, CHR 0xE2, CHR 0xE3, CHR 0xE4, CHR 0xE5, CHR 0xE6,
                    CHR 0xE7, CHR 0xE8, CHR 0xE9, CHR 0xEA, CHR 0xEB, CHR 0xEC, CHR 0xED,
                    CHR 0xEE, CHR 0xEF, CHR 0xF0, CHR 0xF1, CHR 0xF2, CHR 0xF3, CHR 0xF4,
                    CHR 0xF5, CHR 0xF6, CHR 0xF8, CHR 0xF9, CHR 0xFA, CHR 0xFB, CHR 0xFC,
                    CHR 0xFD, CHR 0xFE])) c of
        None \<Rightarrow> c
      | Some l \<Rightarrow> l)"

definition toLowerCase :: "string \<Rightarrow> string" where
  "toLowerCase s = map toLowerCase_char s"

text \<open>\<open>s.endsWith(t)\<close>.\<close>

definition endsWith :: "string \<Rightarrow> string \<Rightarrow> bool" where
  "endsWith s t = (length t \<le> length s \<and> drop (length s - length t) s = t)"

text \<open>\<open>s.lastIndexOf(c)\<close> for a one-character pattern: \<open>-1\<close> when \<open>c\<close> does not occur.\<close>

definition lastIndexOf :: "string \<Rightarrow> char \<Rightarrow> int" where
  "lastIndexOf s c =
     (if c \<in> set s then int (length s) - 1 - int (length (takeWhile (\<lambda>x. x \<noteq> c) (rev s)))
      else - 1)"

text \<open>\<open>s.substring(i)\<close>: a negative start counts as 0, a start past the end as the length.\<close>

definition substring :: "string \<Rightarrow> int \<Rightarrow> string" where
  "substring s i = drop (nat (max 0 i)) s"

text \<open>\<open>s.split(c)\<close> for a one-character separator; the result is never empty.\<close>

fun split :: "string \<Rightarrow> char \<Rightarrow> string list" where
  "split [] c = [[]]"
| "split (x # xs) c =
     (if x = c then [] # split xs c
      else (case split xs c of [] \<Rightarrow> [[x]] | y # ys \<Rightarrow> (x # y) # ys))"

text \<open>\<open>a.pop()\<close> as a value: the last element, \<open>undefined\<close> on the empty array.\<close>

definition pop :: "'a list \<Rightarrow> 'a option" where
  "pop xs = (if xs = [] then None else Some (last xs))"

text \<open>\<open>a.findIndex(p)\<close>: the index of the first element satisfying \<open>p\<close>, else \<open>-1\<close>.\<close>

fun findIndex :: "('a \<Rightarrow> bool) \<Rightarrow> 'a list \<Rightarrow> int" where
  "findIndex p [] = - 1"
| "findIndex p (x # xs) =
     (if p x then 0 else (let i = findIndex p xs in if i = - 1 then - 1 else i + 1))"

text \<open>\<open>a.slice(b, e)\<close> and \<open>a.slice(b)\<close>: negative positions count from the end, and
  every position is clamped to the array.\<close>

definition slice_pos :: "nat \<Rightarrow> int \<Rightarrow> nat" where
  "slice_pos n i = (if i < 0 then nat (max (int n + i) 0) else min (nat i) n)"

definition slice :: "'a list \<Rightarrow> int \<Rightarrow> int \<Rightarrow> 'a list" where
  "slice xs b e =
     (let b' = slice_pos (length xs) b; e' = slice_pos (length xs) e
      in take (e' - b') (drop b' xs))"

definition slice_from :: "'a list \<Rightarrow> int \<Rightarrow> 'a list" where
  "slice_from xs b = drop (slice_pos (length xs) b) xs"

text \<open>\<open>Number.prototype.toString\<close> on a non-negative integer such as \<open>Date.now()\<close>: its
  decimal digits.\<close>

definition digit_char :: "nat \<Rightarrow> char" where
  "digit_char d = ''0123456789'' ! d"

fun toString :: "nat \<Rightarrow> string" where
  "toString n =
     (if n < 10 then [digit_char n] else toString (n div 10) @ [digit_char (n mod 10)])"

declare toString.simps [simp del]

section \<open>JSON texts\<close>

text \<open>
  \<open>JSON.parse\<close> belongs to the platform. It throws \<open>SyntaxError\<close> on every string
  that is not a JSON text. The grammar of JSON texts (ECMA-404: one value between
  optional white space; objects, arrays, strings with escapes, numbers and the three
  literals) is recognised here by a pushdown automaton that reads the string once:
  \<open>json_mode\<close> says what may come next, and the stack holds the arrays and objects
  that are still open.
\<close>

datatype json_context = InArray | InObject

datatype json_mode =
    ExpectValue | ExpectValueOrEnd | ExpectKeyOrEnd | ExpectKey | ExpectColon | AfterValue
  | InString bool | InEscape bool | InHex bool nat | InLiteral string
  | NumMinus | NumZero | NumInt | NumFracStart | NumFrac | NumExpStart | NumExpSign | NumExp

type_synonym json_state = "json_mode \<times> json_context list"

definition is_ws :: "char \<Rightarrow> bool" where
  "is_ws c = (c \<in> set [CHR '' '', CHR 0x09, CHR 0x0A, CHR 0x0D])"

definition is_digit :: "char \<Rightarrow> bool" where
  "is_digit c = (c \<in> set ''0123456789'')"

definition is_hex :: "char \<Rightarrow> bool" where
  "is_hex c = (c \<in> set ''0123456789abcdefABCDEF'')"

definition begin_value :: "json_context list \<Rightarrow> char \<Rightarrow> json_state option" where
  "begin_value stack c =
     (if c = CHR ''{'' then Some (ExpectKeyOrEnd, InObject # stack)
      else if c = CHR ''['' then Some (ExpectValueOrEnd, InArray # stack)
      else if c = CHR 0x22 then Some (InString False, stack)
      else if c = CHR ''-'' then Some (NumMinus, stack)
      else if c = CHR ''0'' then Some (NumZero, stack)
      else if is_digit c then Some (NumInt, stack)
      else if c = CHR ''t'' then Some (InLiteral ''rue'', stack)
      else if c = CHR ''f'' then Some (InLiteral ''alse'', stack)
      else if c = CHR ''n'' then Some (InLiteral ''ull'', stack)
      else None)"

definition after_value :: "json_context list \<Rightarrow> char \<Rightarrow> json_state option" where
  "after_value stack c =
     (if is_ws c then Some (AfterValue, stack)
      else (case stack of
              [] \<Rightarrow> None
            | InArray # rest \<Rightarrow>
                if c = CHR '','' then Some (ExpectValue, stack)
                else if c = CHR '']'' then Some (AfterValue, rest) else None
            | InObject # rest \<Rightarrow>
                if c = CHR '','' then Some (ExpectKey, stack)
                else if c = CHR ''}'' then Some (AfterValue, rest) else None))"

fun json_step :: "json_state \<Rightarrow> char \<Rightarrow> json_state option" where
  "json_step (ExpectValue, stack) c = (if is_ws c then Some (ExpectValue, stack) else begin_value stack c)"
| "json_step (ExpectValueOrEnd, stack) c =
     (if is_ws c then Some (ExpectValueOrEnd, stack)
      else if c = CHR '']'' then Some (AfterValue, tl stack) else begin_value stack c)"
| "json_step (ExpectKeyOrEnd, stack) c =
     (if is_ws c then Some (ExpectKeyOrEnd, stack)
      else if c = CHR ''}'' then Some (AfterValue, tl stack)
      else if c = CHR 0x22 then Some (InString True, stack) else None)"
| "json_step (ExpectKey, stack) c =
     (if is_ws c then Some (ExpectKey, stack)
      else if c = CHR 0x22 then Some (InString True, stack) else None)"
| "json_step (ExpectColon, stack) c =
     (if is_ws c then Some (ExpectColon, stack)
      else if c = CHR '':'' then Some (ExpectValue, stack) else None)"
| "json_step (AfterValue, stack) c = after_value stack c"
| "json_step (InString k, stack) c =
     (if c = CHR 0x22 then Some (if k then ExpectColon else AfterValue, stack)
      else if c = CHR 0x5C then Some (InEscape k, stack)
      else if (of_char c :: nat) < 32 then None else Some (InString k, stack))"
| "json_step (InEscape k, stack) c =
     (if c \<in> set [CHR 0x22, CHR 0x5C, CHR ''/'', CHR ''b'', CHR ''f'', CHR ''n'', CHR ''r'', CHR ''t'']
      then Some (InString k, stack)
      else if c = CHR ''u'' then Some (InHex k 4, stack) else None)"
| "json_step (InHex k n, stack) c =
     (if is_hex c then Some (if n \<le> 1 then InString k else InHex k (n - 1), stack) else None)"
| "json_step (InLiteral rest, stack) c =
     (case rest of
        [] \<Rightarrow> None
      | x # xs \<Rightarrow> if c = x then Some (if xs = [] then AfterValue else InLiteral xs, stack) else None)"
| "json_step (NumMinus, stack) c =
     (if c = CHR ''0'' then Some (NumZero, stack)
      else if is_digit c then Some (NumInt, stack) else None)"
| "json_step (NumZero, stack) c =
     (if c = CHR ''.'' then Some (NumFracStart, stack)
      else if c = CHR ''e'' \<or> c = CHR ''E'' then Some (NumExpStart, stack)
      else after_value stack c)"
| "json_step (NumInt, stack) c =
     (if is_digit c then Some (NumInt, stack)
      else if c = CHR ''.'' then Some (NumFracStart, stack)
      else if c = CHR ''e'' \<or> c = CHR ''E'' then Some (NumExpStart, stack)
      else after_value stack c)"
| "json_step (NumFracStart, stack) c = (if is_digit c then Some (NumFrac, stack) else None)"
| "json_step (NumFrac, stack) c =
     (if is_digit c then Some (NumFrac, stack)
      else if c = CHR ''e'' \<or> c = CHR ''E'' then Some (NumExpStart, stack)
      else after_value stack c)"
| "json_step (NumExpStart, stack) c =
     (if c = CHR ''+'' \<or> c = CHR ''-'' then Some (NumExpSign, stack)
      else if is_digit c then Some (NumExp, stack) else None)"
| "json_step (NumExpSign, stack) c = (if is_digit c then Some (NumExp, stack) else None)"
| "json_step (NumExp, stack) c = (if is_digit c then Some (NumExp, stack) else after_value stack c)"

fun json_run :: "json_state \<Rightarrow> string \<Rightarrow> json_state option" where
  "json_run s [] = Some s"
| "json_run s (c # cs) = (case json_step s c of None \<Rightarrow> None | Some s' \<Rightarrow> json_run s' cs)"

definition json_complete :: "json_state \<Rightarrow> bool" where
  "json_complete s = (snd s = [] \<and> fst s \<in> set [AfterValue, NumZero, NumInt, NumFrac, NumExp])"

definition JSON_text :: "string \<Rightarrow> bool" where
  "JSON_text s = (case json_run (ExpectValue, []) s of None \<Rightarrow> False | Some s' \<Rightarrow> json_complete s')"

section \<open>Files and their validation\<close>

text \<open>
  A browser \<open>File\<close>: its name, its size in bytes, its declared content type and its
  contents.
\<close>

record File =
  name :: string
  size_bytes :: nat
  type_str :: string
  bytes :: "nat list"

subsection \<open>\<open>validateModelFile\<close> (utils/modelHandler.ts)\<close>

record ModelInfo =
  id_str :: string
  name :: string
  format :: string
  size_bytes :: nat
  timestamp :: string
  type_str :: string

text \<open>
  The promise the function returns is rejected with a \<open>ModelValidationError\<close> or
  resolved with the \<open>ModelInfo\<close>. \<open>now\<close> is the reading of \<open>Date.now()\<close> and
  \<open>isoTime\<close> the text of \<open>new Date().toISOString()\<close>.
\<close>

definition validateModelFile :: "nat \<Rightarrow> string \<Rightarrow> File \<Rightarrow> js_error + ModelInfo" where
  "validateModelFile now isoTime file =
     (if \<not> endsWith (toLowerCase (File.name file)) ''.pkl''
      then Inl (ModelValidationError ''Invalid file format. Only .pkl files are supported.'')
      else (let maxSize = 500 * 1024 * 1024
            in if File.size_bytes file > maxSize
               then Inl (ModelValidationError ''File size too large. Maximum size is 500MB.'')
               else Inr \<lparr>id_str = toString now, name = File.name file, format = ''pkl'',
                         size_bytes = File.size_bytes file, timestamp = isoTime,
                         type_str = ''gpt-4''\<rparr>))"

subsection \<open>\<open>validateDataset\<close> (DatasetComparisonPage)\<close>

record DatasetValidationResult =
  isValid :: bool
  error :: "string option"
  data :: "string list option"

definition validateDataset :: "File option \<Rightarrow> DatasetValidationResult" where
  "validateDataset file =
     (case file of
        None \<Rightarrow> \<lparr>isValid = False, error = Some ''No file provided'', data = None\<rparr>
      | Some f \<Rightarrow>
          (let fileType = map_option toLowerCase (pop (split (File.name f) (CHR ''.'')))
           in if (case fileType of None \<Rightarrow> [] | Some t \<Rightarrow> t) \<notin> set [''csv'', ''xlsx'']
              then \<lparr>isValid = False,
                    error = Some ''Invalid file type. Please upload a .csv or .xlsx file'',
                    data = None\<rparr>
              else \<lparr>isValid = True, error = None, data = Some []\<rparr>))"

subsection \<open>\<open>handleDatasetUpload\<close> (DatasetUploader)\<close>

text \<open>
  What \<open>fetch\<close> and \<open>response.json()\<close> give the uploader: the request fails, or a
  response arrives with its \<open>ok\<close> flag and status, whose body is either not JSON or a
  JSON object with an optional \<open>error\<close> property.
\<close>

datatype fetch_result =
    FetchFailed string
  | NotJson bool nat
  | JsonBody bool nat "string option"

text \<open>
  The state of the component that the handler writes, and what the handler does to the
  outside: it posts a file to \<open>/api/upload/dataset\<close> and calls \<open>onUploadError\<close> or
  \<open>onUploadSuccess\<close>. The timer that clears the success message later is left out.
\<close>

record UploaderState =
  error :: "string option"
  successMessage :: "string option"
  loading :: bool

datatype uploader_effect =
    Posted File
  | OnUploadError string
  | OnUploadSuccess

text \<open>The test of the file type at the head of \<open>handleDatasetUpload\<close>.\<close>

definition has_valid_type :: "string \<Rightarrow> bool" where
  "has_valid_type fileName =
     (let validTypes = [''.csv'', ''.xlsx'', ''.xls''];
          fileExtension = toLowerCase (substring fileName (lastIndexOf fileName (CHR ''.'')))
      in fileExtension \<in> set validTypes)"

definition handleDatasetUpload ::
  "(File \<Rightarrow> fetch_result) \<Rightarrow> File option \<Rightarrow> UploaderState \<Rightarrow>
   UploaderState \<times> uploader_effect list" where
  "handleDatasetUpload fetch file st =
     (case file of
        None \<Rightarrow>
          (let errorMsg = ''No file selected''
           in (st\<lparr>error := Some errorMsg\<rparr>, [OnUploadError errorMsg]))
      | Some f \<Rightarrow>
          if \<not> has_valid_type (File.name f)
          then (let errorMsg =
                      ''Invalid file format. Only .csv, .xlsx, and .xls files are supported.''
                in (st\<lparr>error := Some errorMsg\<rparr>, [OnUploadError errorMsg]))
          else
            (case fetch f of
               FetchFailed msg \<Rightarrow>
                 (st\<lparr>error := Some msg, loading := False\<rparr>, [Posted f, OnUploadError msg])
             | NotJson ok status \<Rightarrow>
                 (let errorMsg = ''Server returned invalid JSON response''
                  in (st\<lparr>error := Some errorMsg, loading := False\<rparr>,
                      [Posted f, OnUploadError errorMsg]))
             | JsonBody ok status err \<Rightarrow>
                 if \<not> ok
                 then (let errorMsg =
                             (case err of
                                None \<Rightarrow> ''Upload failed with status: '' @ toString status
                              | Some e \<Rightarrow>
                                  if e = [] then ''Upload failed with status: '' @ toString status
                                  else e)
                       in (st\<lparr>error := Some errorMsg, loading := False\<rparr>,
                           [Posted f, OnUploadError errorMsg]))
                 else (st\<lparr>error := None,
                          successMessage := Some ''Dataset uploaded successfully'',
                          loading := False\<rparr>,
                       [Posted f, OnUploadSuccess])))"

section \<open>The upload routes of the server\<close>

text \<open>
  A multipart request as \<open>formidable\<close> sees it: each part has the name of its form
  field, the file name and the content type the client sent, if any, the contents, and
  the path in the upload directory at which \<open>formidable\<close> stores it while parsing
  when it is a file. The file system maps paths to contents.
\<close>

record part =
  fieldName :: string
  originalFilename :: "string option"
  mimetype :: "string option"
  filepath :: string
  content :: "nat list"

record request =
  method_str :: string
  parts :: "part list"

type_synonym filesystem = "string \<rightharpoonup> nat list"

record DatasetInfo =
  id_str :: string
  filename :: string
  originalName :: string
  size_bytes :: nat
  type_str :: "string option"
  uploadedAt :: string

datatype body =
    ErrorBody string
  | DatasetBody DatasetInfo
  | ModelBody ModelInfo

datatype response = Response nat body

text \<open>\<open>error.message\<close>; the text of a \<open>SyntaxError\<close> is the platform's.\<close>

fun message :: "js_error \<Rightarrow> string" where
  "message (Error m) = m"
| "message (ModelValidationError m) = m"
| "message SyntaxError = ''Unexpected token''"

text \<open>
  \<open>path.extname\<close> of Node on POSIX paths: the extension of the last path component,
  from its last dot; empty when that component has no dot, starts with its only dot, or
  is \<open>..\<close>. Trailing slashes are ignored.
\<close>

definition basename :: "string \<Rightarrow> string" where
  "basename p =
     (let trimmed = dropWhile (\<lambda>c. c = CHR ''/'') (rev p)
      in rev (takeWhile (\<lambda>c. c \<noteq> CHR ''/'') trimmed))"

definition extname :: "string \<Rightarrow> string" where
  "extname p =
     (let b = basename p; i = lastIndexOf b (CHR ''.'')
      in if i \<le> 0 \<or> b = ''..'' then [] else drop (nat i) b)"

text \<open>
  \<open>form.parse\<close> of \<open>formidable\<close> 3 with its default options, but for
  \<open>maxFileSize\<close> and \<open>filter\<close>. The parts are handled in the order of the request.
  A part without a content type is a field, not a file, and is not stored; a part that
  fails the \<open>filter\<close> option is skipped. Every other part is a file, written to its
  path in the upload directory: the parse fails once the bytes of the files received
  exceed \<open>maxTotalFileSize\<close>, which defaults to \<open>maxFileSize\<close>, and at the end of a
  file that is empty (\<open>allowEmptyFiles\<close> is false). The first failure ends the parse,
  and \<open>formidable\<close> removes what it has written. \<open>form_parse_from\<close> carries the bytes
  of file data received so far and the files completed so far.

  The text of the size error names the bytes received when the limit is crossed, here
  with the whole of the part that crosses it; \<open>formidable\<close> counts them chunk by chunk
  as the body arrives. The limit on the size of the fields and the failures of a
  malformed request are left out.
\<close>

fun form_parse_from ::
  "nat \<Rightarrow> (part \<Rightarrow> bool) \<Rightarrow> part list \<Rightarrow> nat \<Rightarrow> part list \<Rightarrow> js_error + part list" where
  "form_parse_from maxFileSize accepts [] totalFileSize files = Inr files"
| "form_parse_from maxFileSize accepts (p # ps) totalFileSize files =
     (if mimetype p = None \<or> mimetype p = Some []
      then form_parse_from maxFileSize accepts ps totalFileSize files
      else if \<not> accepts p
      then form_parse_from maxFileSize accepts ps totalFileSize files
      else (let fileSize = length (content p);
                received = totalFileSize + fileSize
            in if maxFileSize < received
               then Inl (Error (''options.maxTotalFileSize ('' @ toString maxFileSize @
                                  '' bytes) exceeded, received '' @ toString received @
                                  '' bytes of file data''))
               else if fileSize = 0
               then Inl (Error
                      ''options.allowEmptyFiles is false, file size should be greater than 0'')
               else form_parse_from maxFileSize accepts ps received (files @ [p])))"

definition form_parse ::
  "nat \<Rightarrow> (part \<Rightarrow> bool) \<Rightarrow> part list \<Rightarrow> filesystem \<Rightarrow> js_error + (part list \<times> filesystem)" where
  "form_parse maxFileSize accepts ps fs =
     (case form_parse_from maxFileSize accepts ps 0 [] of
        Inl e \<Rightarrow> Inl e
      | Inr files \<Rightarrow> Inr (files, foldl (\<lambda>fs' p. fs'(filepath p \<mapsto> content p)) fs files))"

text \<open>\<open>fs.promises.rename\<close>.\<close>

definition rename :: "filesystem \<Rightarrow> string \<Rightarrow> string \<Rightarrow> js_error + filesystem" where
  "rename fs old new =
     (case fs old of
        None \<Rightarrow> Inl (Error ''ENOENT: no such file or directory'')
      | Some c \<Rightarrow> Inr ((fs(old := None))(new \<mapsto> c)))"

subsection \<open>The dataset upload route (pages/api/upload/dataset.ts)\<close>

definition dataset_filter :: "part \<Rightarrow> bool" where
  "dataset_filter p =
     (case originalFilename p of
        None \<Rightarrow> False
      | Some n \<Rightarrow>
          if n = [] then False
          else (let ext = toLowerCase (extname n) in ext \<in> set [''.csv'', ''.xlsx'', ''.xls'']))"

text \<open>
  \<open>UPLOADS_DIR\<close> is the parameter \<open>dir\<close>, \<open>now\<close> the reading of \<open>Date.now()\<close> and
  \<open>isoTime\<close> the text of \<open>new Date().toISOString()\<close>. The handler returns the response and
  the file system it leaves behind.
\<close>

definition dataset_upload_handler ::
  "string \<Rightarrow> nat \<Rightarrow> string \<Rightarrow> request \<Rightarrow> filesystem \<Rightarrow> response \<times> filesystem" where
  "dataset_upload_handler dir now isoTime req fs =
     (if method_str req \<noteq> ''POST'' then (Response 405 (ErrorBody ''Method not allowed''), fs)
      else
        (case form_parse (100 * 1024 * 1024) dataset_filter (parts req) fs of
           Inl e \<Rightarrow> (Response 500 (ErrorBody (message e)), fs)
         | Inr (files, fs1) \<Rightarrow>
             (case find (\<lambda>p. fieldName p = ''file'') files of
                None \<Rightarrow> (Response 400 (ErrorBody ''No file part''), fs1)
              | Some uploadedFile \<Rightarrow>
                  (case originalFilename uploadedFile of
                     None \<Rightarrow> (Response 400 (ErrorBody ''Invalid file upload''), fs1)
                   | Some original \<Rightarrow>
                       if original = [] then (Response 400 (ErrorBody ''Invalid file upload''), fs1)
                       else
                         (let fileId = toString now;
                              ext = extname original;
                              finalFilename = ''dataset_'' @ fileId @ ext;
                              finalPath = dir @ ''/'' @ finalFilename
                          in case rename fs1 (filepath uploadedFile) finalPath of
                               Inl e \<Rightarrow> (Response 500 (ErrorBody (message e)), fs1)
                             | Inr fs2 \<Rightarrow>
                                 (Response 200
                                    (DatasetBody
                                       \<lparr>id_str = fileId, filename = finalFilename,
                                        originalName = original,
                                        size_bytes = length (content uploadedFile),
                                        type_str = mimetype uploadedFile, uploadedAt = isoTime\<rparr>),
                                  fs2))))))"

subsection \<open>The model upload route (pages/api/model/upload.ts)\<close>

definition model_upload_handler ::
  "string \<Rightarrow> nat \<Rightarrow> string \<Rightarrow> request \<Rightarrow> filesystem \<Rightarrow> response \<times> filesystem" where
  "model_upload_handler dir now isoTime req fs =
     (if method_str req \<noteq> ''POST'' then (Response 405 (ErrorBody ''Method not allowed''), fs)
      else
        (case form_parse (500 * 1024 * 1024) (\<lambda>p. True) (parts req) fs of
           Inl e \<Rightarrow> (Response 500 (ErrorBody (''Upload failed: '' @ message e)), fs)
         | Inr (files, fs1) \<Rightarrow>
             (case find (\<lambda>p. fieldName p = ''model'') files of
                None \<Rightarrow> (Response 400 (ErrorBody ''No model file provided in the request''), fs1)
              | Some modelFile \<Rightarrow>
                  (case originalFilename modelFile of
                     None \<Rightarrow> (Response 400 (ErrorBody ''Invalid file upload''), fs1)
                   | Some original \<Rightarrow>
                       if original = [] then (Response 400 (ErrorBody ''Invalid file upload''), fs1)
                       else
                         (let file =
                                \<lparr>File.name = original,
                                 File.size_bytes = length (content modelFile),
                                 File.type_str =
                                   (case mimetype modelFile of
                                      None \<Rightarrow> ''application/octet-stream''
                                    | Some t \<Rightarrow> if t = [] then ''application/octet-stream'' else t),
                                 bytes = content modelFile\<rparr>
                          in case validateModelFile now isoTime file of
                               Inl e \<Rightarrow>
                                 (Response 500 (ErrorBody (''Upload failed: '' @ message e)), fs1)
                             | Inr modelInfo \<Rightarrow>
                                 (let finalPath = dir @ ''/'' @ ModelInfo.id_str modelInfo @ ''.pkl''
                                  in case rename fs1 (filepath modelFile) finalPath of
                                       Inl e \<Rightarrow>
                                         (Response 500
                                            (ErrorBody (''Upload failed: '' @ message e)), fs1)
                                     | Inr fs2 \<Rightarrow> (Response 200 (ModelBody modelInfo), fs2)))))))"

section \<open>Simulated evaluation (\<open>evaluateModel\<close> in utils/modelEvaluation.ts)\<close>

text \<open>
  The metrics are those of the \<open>ModelMetrics\<close> interface. \<open>rnd k\<close> is the value of the
  \<open>k\<close>-th call of \<open>Math.random()\<close> during the evaluation, counted from 0.
\<close>

record KFoldResult =
  fold :: nat
  accuracy :: real
  precision :: real
  recall :: real
  f1Score :: real

record HardwareTimes =
  inferenceTime :: real
  latency :: real
  throughput :: real

record HardwareMetrics =
  cpu :: HardwareTimes
  gpu :: "HardwareTimes option"

record ModelMetrics =
  accuracy :: real
  precision :: real
  recall :: real
  f1Score :: real
  inferenceTime :: real
  memoryUsage :: real
  parameters :: real
  flops :: real
  modelSize :: real
  hardware :: HardwareMetrics

record ModelEvaluationResult =
  metrics :: ModelMetrics
  kFoldResults :: "KFoldResult list"
  isSimulated :: bool

text \<open>The loop of \<open>generateDummyKFoldResults\<close>, with \<open>i\<close> its counter and \<open>n\<close> the number
  of values \<open>Math.random()\<close> has given before.\<close>

fun generateDummyKFoldResults_from ::
  "(nat \<Rightarrow> real) \<Rightarrow> nat \<Rightarrow> nat \<Rightarrow> nat \<Rightarrow> KFoldResult list" where
  "generateDummyKFoldResults_from rnd n i 0 = []"
| "generateDummyKFoldResults_from rnd n i (Suc left) =
     \<lparr>fold = i + 1,
      KFoldResult.accuracy = 0.85 + rnd n * 0.1,
      KFoldResult.precision = 0.83 + rnd (n + 1) * 0.1,
      KFoldResult.recall = 0.82 + rnd (n + 2) * 0.1,
      KFoldResult.f1Score = 0.84 + rnd (n + 3) * 0.1\<rparr>
     # generateDummyKFoldResults_from rnd (n + 4) (i + 1) left"

definition generateDummyKFoldResults :: "(nat \<Rightarrow> real) \<Rightarrow> nat \<Rightarrow> nat \<Rightarrow> KFoldResult list" where
  "generateDummyKFoldResults rnd n k = generateDummyKFoldResults_from rnd n 0 k"

definition generateDummyMetrics :: "(nat \<Rightarrow> real) \<Rightarrow> bool \<Rightarrow> ModelMetrics" where
  "generateDummyMetrics rnd isBuiltInModel =
     (let baseValue = (if isBuiltInModel then 0.9 else 0.85); variance = 0.05
      in \<lparr>ModelMetrics.accuracy = baseValue + rnd 0 * variance,
          ModelMetrics.precision = baseValue - 0.02 + rnd 1 * variance,
          ModelMetrics.recall = baseValue - 0.01 + rnd 2 * variance,
          ModelMetrics.f1Score = baseValue - 0.01 + rnd 3 * variance,
          ModelMetrics.inferenceTime = (if isBuiltInModel then 8 + rnd 4 * 4 else 12 + rnd 4 * 5),
          memoryUsage = (if isBuiltInModel then 180 + rnd 5 * 40 else 220 + rnd 5 * 50),
          parameters = (if isBuiltInModel then 800000 else 1000000),
          flops = (if isBuiltInModel then 1800000000 else 2300000000),
          modelSize = (if isBuiltInModel then 75 else 98),
          hardware =
            \<lparr>cpu = \<lparr>HardwareTimes.inferenceTime = (if isBuiltInModel then 15 else 22),
                     latency = (if isBuiltInModel then 12 else 20),
                     throughput = (if isBuiltInModel then 150 else 110)\<rparr>,
             gpu = Some \<lparr>HardwareTimes.inferenceTime = (if isBuiltInModel then 3 else 5),
                          latency = (if isBuiltInModel then 2 else 4),
                          throughput = (if isBuiltInModel then 800 else 550)\<rparr>\<rparr>\<rparr>)"

text \<open>
  Neither file is read; both branches build their result from \<open>Math.random()\<close>, and
  nothing in the \<open>try\<close> block can throw.
\<close>

definition evaluateModel :: "(nat \<Rightarrow> real) \<Rightarrow> File \<Rightarrow> File \<Rightarrow> bool \<Rightarrow> ModelEvaluationResult" where
  "evaluateModel rnd model dataset isBuiltInModel =
     (if isBuiltInModel
      then \<lparr>metrics = generateDummyMetrics rnd True,
            kFoldResults = generateDummyKFoldResults rnd 6 5, isSimulated = True\<rparr>
      else \<lparr>metrics = generateDummyMetrics rnd False,
            kFoldResults = generateDummyKFoldResults rnd 6 5, isSimulated = True\<rparr>)"

section \<open>Benchmark results\<close>

text \<open>
  The \<open>BenchmarkResult\<close> objects that \<open>SelfBenchmarkPage.tsx\<close> builds and hands to the
  model context carry the properties of its object literals: \<open>modelName\<close>, \<open>modelId\<close>,
  \<open>metrics\<close>, \<open>timestamp\<close>, \<open>fromLibrary\<close> and, on a failed evaluation, \<open>error\<close>.
  The metrics are either the eight numbers of the page's own literals or the
  \<open>EvaluationMetrics\<close> object that \<open>api.evaluateModel\<close> returns.
\<close>

record EvaluationMetrics =
  accuracy :: real
  precision :: real
  recall :: real
  f1_score :: real

record BenchmarkMetrics =
  accuracy :: real
  f1Score :: real
  precision :: real
  recall :: real
  latency :: real
  throughput :: real
  memoryUsage :: real
  modelSize :: real

datatype metrics_value =
    Benchmark BenchmarkMetrics
  | Evaluation EvaluationMetrics

record BenchmarkResult =
  modelName :: string
  modelId :: "string option"
  metrics :: metrics_value
  timestamp :: string
  fromLibrary :: "bool option"
  error :: "string option"

section \<open>The model context: the result store (\<open>ModelProvider\<close>)\<close>

text \<open>
  The provider holds the \<open>selectedModels\<close> state and mirrors it into the browser's
  \<open>localStorage\<close>, a map from keys to strings. \<open>JSON.stringify\<close> on a collection
  is the parameter \<open>stringify\<close>. \<open>JSON.parse(s)\<close> throws \<open>SyntaxError\<close> unless
  \<open>s\<close> is a JSON text; the collection that a JSON text denotes is the parameter
  \<open>denote\<close>.
\<close>

record ModelState =
  selectedModels :: "BenchmarkResult list"
  localStorage :: "string \<rightharpoonup> string"

definition initialState :: "(string \<rightharpoonup> string) \<Rightarrow> ModelState" where
  "initialState ls = \<lparr>selectedModels = [], localStorage = ls\<rparr>"

definition JSON_parse :: "(string \<Rightarrow> 'a) \<Rightarrow> string \<Rightarrow> js_error + 'a" where
  "JSON_parse denote s = (if JSON_text s then Inr (denote s) else Inl SyntaxError)"

text \<open>The effect that runs on the initial render. Nothing in it catches an exception.\<close>

definition loadModels ::
  "(string \<Rightarrow> BenchmarkResult list) \<Rightarrow> ModelState \<Rightarrow> js_error + ModelState" where
  "loadModels denote st =
     (case localStorage st ''selectedModels'' of
        None \<Rightarrow> Inr st
      | Some savedModels \<Rightarrow>
          if savedModels = [] then Inr st
          else (case JSON_parse denote savedModels of
                  Inl e \<Rightarrow> Inl e
                | Inr ms \<Rightarrow> Inr (st\<lparr>selectedModels := ms\<rparr>)))"

definition addModel ::
  "(BenchmarkResult list \<Rightarrow> string) \<Rightarrow> BenchmarkResult \<Rightarrow> ModelState \<Rightarrow> ModelState" where
  "addModel stringify model st =
     (let prev = selectedModels st;
          exists = list_ex (\<lambda>m. modelName m = modelName model) prev
      in if exists then st
         else (let newModels = prev @ [model]
               in st\<lparr>selectedModels := newModels,
                     localStorage := (localStorage st)(''selectedModels'' \<mapsto> stringify newModels)\<rparr>))"

definition removeModel ::
  "(BenchmarkResult list \<Rightarrow> string) \<Rightarrow> string \<Rightarrow> ModelState \<Rightarrow> ModelState" where
  "removeModel stringify wanted st =
     (let prev = selectedModels st;
          index = findIndex (\<lambda>m. modelName m = wanted) prev
      in if index = - 1 then st
         else (let newModels = slice prev 0 index @ slice_from prev (index + 1)
               in st\<lparr>selectedModels := newModels,
                     localStorage := (localStorage st)(''selectedModels'' \<mapsto> stringify newModels)\<rparr>))"

definition clearModels :: "ModelState \<Rightarrow> ModelState" where
  "clearModels st =
     st\<lparr>selectedModels := [], localStorage := (localStorage st)(''selectedModels'' := None)\<rparr>"

text \<open>
  The state is in step with the storage when mounting the provider afresh over the same
  storage loads exactly the collection held in memory.
\<close>

definition in_sync :: "(string \<Rightarrow> BenchmarkResult list) \<Rightarrow> ModelState \<Rightarrow> bool" where
  "in_sync denote st = (loadModels denote (initialState (localStorage st)) = Inr st)"

text \<open>What the platform guarantees for a collection \<open>ms\<close> of plain records:
  \<open>JSON.stringify\<close> yields a JSON text that \<open>JSON.parse\<close> reads back as \<open>ms\<close>.\<close>

definition round_trips ::
  "(BenchmarkResult list \<Rightarrow> string) \<Rightarrow> (string \<Rightarrow> BenchmarkResult list) \<Rightarrow>
   BenchmarkResult list \<Rightarrow> bool" where
  "round_trips stringify denote ms = (JSON_parse denote (stringify ms) = Inr ms)"

text \<open>The metrics of a result that records a failure, and of a freshly uploaded model.\<close>

definition zero_metrics :: BenchmarkMetrics where
  "zero_metrics =
     \<lparr>accuracy = 0, f1Score = 0, precision = 0, recall = 0, latency = 0, throughput = 0,
      memoryUsage = 0, modelSize = 0\<rparr>"

section \<open>Evaluating the selected models (\<open>handleEvaluate\<close> in SelfBenchmarkPage.tsx)\<close>

text \<open>
  While its loop runs, the page reads three things from outside: \<open>Math.random()\<close>, the
  outcome of \<open>api.evaluateModel\<close> (a POST to \<open>/evaluate\<close>) and the clock. The
  environment gives them by the position \<open>i\<close> of the model in the list, which is the
  number of the loop's iteration: \<open>Math_random env i k\<close> is the \<open>k\<close>-th random value of
  iteration \<open>i\<close>, \<open>evaluateModel_reply env i\<close> what the call of that iteration returns,
  and \<open>toISOString env i\<close> the time stamp taken in it.
\<close>

datatype api_reply =
    Rejected string
  | Replied "EvaluationMetrics option"

record environment =
  Math_random :: "nat \<Rightarrow> nat \<Rightarrow> real"
  evaluateModel_reply :: "nat \<Rightarrow> api_reply"
  toISOString :: "nat \<Rightarrow> string"

text \<open>A call of \<open>api.evaluateModel\<close>: the model's \<open>modelId\<close> and the dataset path.\<close>

type_synonym api_call = "string option \<times> string"

text \<open>The metrics that the branch for library models draws.\<close>

definition simulated_metrics :: "(nat \<Rightarrow> real) \<Rightarrow> BenchmarkMetrics" where
  "simulated_metrics rnd =
     \<lparr>accuracy = rnd 0 * 0.3 + 0.7, f1Score = rnd 1 * 0.3 + 0.7,
      precision = rnd 2 * 0.3 + 0.7, recall = rnd 3 * 0.3 + 0.7,
      latency = rnd 4 * 100 + 50, throughput = rnd 5 * 1000 + 500,
      memoryUsage = rnd 6 * 1000 + 500, modelSize = rnd 7 * 100 + 50\<rparr>"

text \<open>
  The body of the inner \<open>try\<close>, up to the assignment of \<open>modelMetrics\<close>: the metrics,
  or the message of the \<open>Error\<close> thrown, together with the calls made to the evaluation
  service.
\<close>

definition model_metrics ::
  "environment \<Rightarrow> nat \<Rightarrow> File option \<Rightarrow> string option \<Rightarrow> BenchmarkResult \<Rightarrow>
   (string + metrics_value) \<times> api_call list" where
  "model_metrics env i dataset datasetPath model =
     (if fromLibrary model = Some True
      then (Inr (Benchmark (simulated_metrics (Math_random env i))), [])
      else
        (case (dataset, datasetPath) of
           (Some d, Some path) \<Rightarrow>
             if path = []
             then (Inl ''Please upload a dataset before evaluating custom models'', [])
             else
               (case evaluateModel_reply env i of
                  Rejected msg \<Rightarrow>
                    (Inl (''Failed to evaluate '' @ modelName model @ '': '' @ msg),
                     [(modelId model, path)])
                | Replied None \<Rightarrow>
                    (Inl (''Failed to evaluate '' @ modelName model @ '': '' @
                          ''Evaluation failed to return metrics''),
                     [(modelId model, path)])
                | Replied (Some m) \<Rightarrow> (Inr (Evaluation m), [(modelId model, path)]))
         | _ \<Rightarrow> (Inl ''Please upload a dataset before evaluating custom models'', [])))"

text \<open>One iteration of the loop: the result pushed for the model, and the calls made.\<close>

definition evaluate_model ::
  "environment \<Rightarrow> nat \<Rightarrow> File option \<Rightarrow> string option \<Rightarrow> BenchmarkResult \<Rightarrow>
   BenchmarkResult \<times> api_call list" where
  "evaluate_model env i dataset datasetPath model =
     (case model_metrics env i dataset datasetPath model of
        (Inr modelMetrics, calls) \<Rightarrow>
          (\<lparr>modelName = modelName model, modelId = modelId model, metrics = modelMetrics,
            timestamp = toISOString env i, fromLibrary = fromLibrary model, error = None\<rparr>,
           calls)
      | (Inl msg, calls) \<Rightarrow>
          (\<lparr>modelName = modelName model, modelId = modelId model,
            metrics = Benchmark zero_metrics,
            timestamp = toISOString env i, fromLibrary = fromLibrary model,
            error = Some (''Failed to evaluate model: '' @ msg)\<rparr>,
           calls))"

text \<open>The \<open>for\<close> loop over \<open>selectedModels\<close>; \<open>results\<close> is the array pushed to.\<close>

fun evaluate_models ::
  "environment \<Rightarrow> File option \<Rightarrow> string option \<Rightarrow> nat \<Rightarrow> BenchmarkResult list \<Rightarrow>
   BenchmarkResult list \<times> api_call list \<Rightarrow> BenchmarkResult list \<times> api_call list" where
  "evaluate_models env dataset datasetPath i [] (results, calls) = (results, calls)"
| "evaluate_models env dataset datasetPath i (model # rest) (results, calls) =
     (case evaluate_model env i dataset datasetPath model of
        (result, made) \<Rightarrow>
          evaluate_models env dataset datasetPath (Suc i) rest
            (results @ [result], calls @ made))"

text \<open>
  The part of the page's state that the handler writes. The handler returns the new state
  and the calls it has made to the evaluation service. What follows the loop (the
  \<open>onStateChange\<close> callback, the scrolling) is taken not to throw, so the outer
  \<open>catch\<close> is not entered.
\<close>

record PageState =
  comparisonResults :: "BenchmarkResult list"
  pageError :: "string option"
  activeTab :: nat
  loading :: bool

definition handleEvaluate ::
  "environment \<Rightarrow> File option \<Rightarrow> string option \<Rightarrow> BenchmarkResult list \<Rightarrow> PageState \<Rightarrow>
   PageState \<times> api_call list" where
  "handleEvaluate env dataset datasetPath models page =
     (if length models = 0
      then (page\<lparr>pageError := Some ''Please select at least one model to evaluate.''\<rparr>, [])
      else (case evaluate_models env dataset datasetPath 0 models ([], []) of
              (results, calls) \<Rightarrow>
                (page\<lparr>comparisonResults := results, pageError := None, activeTab := 2,
                      loading := False\<rparr>,
                 calls)))"

text \<open>
  The names of the properties of a result object, as the two object literals of the loop
  write them: the second literal alone has \<open>error\<close>.
\<close>

definition property_names :: "BenchmarkResult \<Rightarrow> string list" where
  "property_names r =
     [''modelName'', ''modelId'', ''metrics'', ''timestamp'', ''fromLibrary''] @
     (if error r = None then [] else [''error''])"

text \<open>An iteration fails when it ends in the \<open>catch\<close> of the loop body.\<close>

definition evaluation_fails ::
  "environment \<Rightarrow> nat \<Rightarrow> File option \<Rightarrow> string option \<Rightarrow> BenchmarkResult \<Rightarrow> bool" where
  "evaluation_fails env i dataset datasetPath model =
     (case fst (model_metrics env i dataset datasetPath model) of
        Inl msg \<Rightarrow> True
      | Inr modelMetrics \<Rightarrow> False)"

section \<open>Sample data\<close>

text \<open>
  The data on which the theorems below are exercised. \<open>uploaded_resnet\<close> is a model as
  \<open>handleModelUpload\<close> registers it, and \<open>resnet_text\<close> the text \<open>JSON.stringify\<close>
  produces for the collection holding just this model. \<open>sample_stringify\<close> and
  \<open>sample_denote\<close> give the platform's results on the two sample collections (the
  empty one and this one); they are used on these only.
\<close>

definition uploaded_resnet :: BenchmarkResult where
  "uploaded_resnet =
     \<lparr>modelName = ''resnet.pkl'', modelId = Some ''uploads/resnet.pkl'',
      metrics = Benchmark (zero_metrics\<lparr>modelSize := 1024\<rparr>),
      timestamp = ''2024-01-15T10:00:00.000Z'', fromLibrary = Some False, error = None\<rparr>"

definition resnet_text :: string where
  \<open>resnet_text = ''[{"modelName":"resnet.pkl","modelId":"uploads/resnet.pkl","metrics":{"accuracy":0,"precision":0,"recall":0,"f1Score":0,"latency":0,"throughput":0,"memoryUsage":0,"modelSize":1024},"timestamp":"2024-01-15T10:00:00.000Z","fromLibrary":false}]''\<close>

definition sample_stringify :: "BenchmarkResult list \<Rightarrow> string" where
  "sample_stringify ms = (if ms = [uploaded_resnet] then resnet_text else ''[]'')"

definition sample_denote :: "string \<Rightarrow> BenchmarkResult list" where
  "sample_denote s = (if s = resnet_text then [uploaded_resnet] else [])"

definition uploaded_vgg16 :: BenchmarkResult where
  "uploaded_vgg16 =
     \<lparr>modelName = ''vgg16.pkl'', modelId = Some ''uploads/vgg16.pkl'',
      metrics = Benchmark (zero_metrics\<lparr>modelSize := 2048\<rparr>),
      timestamp = ''2024-01-16T11:00:00.000Z'', fromLibrary = Some False, error = None\<rparr>"

definition library_resnet50 :: BenchmarkResult where
  "library_resnet50 =
     \<lparr>modelName = ''ResNet50'', modelId = None,
      metrics = Benchmark (zero_metrics\<lparr>accuracy := 0.95, latency := 50, throughput := 100\<rparr>),
      timestamp = ''2024-01-10T09:00:00.000Z'', fromLibrary = Some True, error = None\<rparr>"

definition iris_csv :: File where
  "iris_csv =
     \<lparr>File.name = ''iris.csv'', File.size_bytes = 4, File.type_str = ''text/csv'',
      bytes = [97, 44, 98, 10]\<rparr>"

definition blank_page :: PageState where
  "blank_page = \<lparr>comparisonResults = [], pageError = None, activeTab = 0, loading = False\<rparr>"

text \<open>
  An environment in which every random value is one half, the evaluation service cannot
  be reached for the second model of the list and answers with metrics for every other,
  and the clock stands still.
\<close>

definition sample_env :: environment where
  "sample_env =
     \<lparr>Math_random = (\<lambda>i k. 1 / 2),
      evaluateModel_reply =
        (\<lambda>i. if i = 1 then Rejected ''Failed to fetch''
             else Replied (Some \<lparr>EvaluationMetrics.accuracy = 0.9,
                                  EvaluationMetrics.precision = 0.8,
                                  EvaluationMetrics.recall = 0.7, f1_score = 0.75\<rparr>)),
      toISOString = (\<lambda>i. ''2024-03-01T12:00:00.000Z'')\<rparr>"

definition notes_txt :: File where
  "notes_txt = \<lparr>File.name = ''notes.txt'', File.size_bytes = 2, File.type_str = ''text/plain'', bytes = [104, 105]\<rparr>"

definition big_pkl :: File where
  "big_pkl = \<lparr>File.name = ''big.pkl'', File.size_bytes = 524288001, File.type_str = ''application/octet-stream'', bytes = []\<rparr>"

definition big_txt :: File where
  "big_txt = \<lparr>File.name = ''big.txt'', File.size_bytes = 524288001, File.type_str = ''text/plain'', bytes = []\<rparr>"

definition model_pkl :: File where
  "model_pkl = \<lparr>File.name = ''Model.PKL'', File.size_bytes = 524288000, File.type_str = ''application/octet-stream'', bytes = []\<rparr>"

definition sales_xls :: File where
  "sales_xls = \<lparr>File.name = ''sales.xls'', File.size_bytes = 3, File.type_str = ''application/vnd.ms-excel'', bytes = [208, 207, 17]\<rparr>"

definition photo_png :: File where
  "photo_png = \<lparr>File.name = ''photo.png'', File.size_bytes = 4, File.type_str = ''image/png'', bytes = [137, 80, 78, 71]\<rparr>"

definition idle_uploader :: UploaderState where
  "idle_uploader =
     \<lparr>UploaderState.error = None, successMessage = None, UploaderState.loading = False\<rparr>"

text \<open>A server that answers every upload with success.\<close>

definition sample_fetch :: "File \<Rightarrow> fetch_result" where
  "sample_fetch f = JsonBody True 200 None"

definition iris_part :: part where
  "iris_part = \<lparr>fieldName = ''file'', originalFilename = Some ''iris.csv'', mimetype = Some ''text/csv'',
     filepath = ''uploads/datasets/8f3a1c.csv'', content = [97, 44, 98, 10]\<rparr>"

definition wine_part :: part where
  "wine_part = \<lparr>fieldName = ''file'', originalFilename = Some ''wine.csv'', mimetype = Some ''text/csv'',
     filepath = ''uploads/datasets/5b7e2d.csv'', content = [99, 44, 100, 10]\<rparr>"

definition photo_part :: part where
  "photo_part = \<lparr>fieldName = ''file'', originalFilename = Some ''photo.png'', mimetype = Some ''image/png'',
     filepath = ''uploads/datasets/c41d09.png'', content = [137, 80, 78, 71]\<rparr>"

text \<open>The clock reading 1700000000000 as an ISO time stamp, and requests to the two upload
  routes.\<close>

definition upload_time :: string where
  "upload_time = ''2023-11-14T22:13:20.000Z''"

definition iris_request :: request where
  "iris_request = \<lparr>method_str = ''POST'', parts = [iris_part]\<rparr>"

definition wine_request :: request where
  "wine_request = \<lparr>method_str = ''POST'', parts = [wine_part]\<rparr>"

definition photo_request :: request where
  "photo_request = \<lparr>method_str = ''POST'', parts = [photo_part]\<rparr>"

definition resnet_request :: request where
  "resnet_request =
     \<lparr>method_str = ''POST'',
      parts = [\<lparr>fieldName = ''model'', originalFilename = Some ''resnet.pkl'',
                mimetype = Some ''application/octet-stream'',
                filepath = ''uploads/2d9c4e.pkl'', content = [128, 4, 149]\<rparr>]\<rparr>"

definition vgg16_request :: request where
  "vgg16_request =
     \<lparr>method_str = ''POST'',
      parts = [\<lparr>fieldName = ''model'', originalFilename = Some ''vgg16.pkl'',
                mimetype = Some ''application/octet-stream'',
                filepath = ''uploads/71fa0b.pkl'', content = [128, 4, 150, 7]\<rparr>]\<rparr>"

section \<open>Auxiliary facts\<close>

lemmas json_eval = JSON_text_def json_complete_def begin_value_def after_value_def
  is_ws_def is_digit_def is_hex_def

lemma JSON_text_nonempty: "JSON_text s \<Longrightarrow> s \<noteq> []"
  by (auto simp: JSON_text_def json_complete_def)

lemma resnet_text_ok: "JSON_text resnet_text"
  by (simp add: resnet_text_def json_eval)

lemma empty_array_text_ok: "JSON_text ''[]''"
  by (simp add: json_eval)

lemma resnet_text_not_empty_array: "resnet_text \<noteq> ''[]''" "''[]'' \<noteq> resnet_text"
  by (simp_all add: resnet_text_def)

lemma sample_round_trip_resnet: "round_trips sample_stringify sample_denote [uploaded_resnet]"
  by (simp add: round_trips_def JSON_parse_def sample_stringify_def sample_denote_def
      resnet_text_ok)

lemma sample_round_trip_empty: "round_trips sample_stringify sample_denote []"
  by (simp add: round_trips_def JSON_parse_def sample_stringify_def sample_denote_def
      empty_array_text_ok resnet_text_not_empty_array)

lemma findIndex_ge: "- 1 \<le> findIndex p xs"
  by (induction xs) (auto simp: Let_def)

lemma findIndex_none: "(findIndex p xs = - 1) = (\<not> list_ex p xs)"
proof (induction xs)
  case Nil
  show ?case by simp
next
  case (Cons x xs)
  have "- 1 \<le> findIndex p xs" by (rule findIndex_ge)
  with Cons show ?case by (auto simp: Let_def)
qed

lemma findIndex_first:
  "\<not> list_ex p xs \<Longrightarrow> p y \<Longrightarrow> findIndex p (xs @ y # zs) = int (length xs)"
  by (induction xs) (auto simp: Let_def)

lemma slice_take: "slice xs 0 (int k) = take k xs"
  by (simp add: slice_def slice_pos_def Let_def min_def)

lemma slice_from_drop: "slice_from xs (int k + 1) = drop (Suc k) xs"
  by (auto simp add: slice_from_def slice_pos_def min_def nat_add_distrib)

lemma addModel_present:
  "list_ex (\<lambda>x. modelName x = modelName m) (selectedModels st) \<Longrightarrow>
   addModel stringify m st = st"
  by (simp add: addModel_def Let_def)

lemma addModel_fresh:
  "\<not> list_ex (\<lambda>x. modelName x = modelName m) (selectedModels st) \<Longrightarrow>
   addModel stringify m st =
     st\<lparr>selectedModels := selectedModels st @ [m],
        localStorage :=
          (localStorage st)(''selectedModels'' \<mapsto> stringify (selectedModels st @ [m]))\<rparr>"
  by (simp add: addModel_def Let_def)

lemma addModel_has:
  "list_ex (\<lambda>x. modelName x = modelName m) (selectedModels (addModel stringify m st))"
  by (auto simp add: addModel_def Let_def list_ex_iff)

lemma removeModel_absent:
  "\<not> list_ex (\<lambda>m. modelName m = wanted) (selectedModels st) \<Longrightarrow>
   removeModel stringify wanted st = st"
  by (simp add: removeModel_def Let_def findIndex_none)

lemma removeModel_at:
  assumes "selectedModels st = xs @ y # zs"
    and "\<not> list_ex (\<lambda>m. modelName m = wanted) xs"
    and "modelName y = wanted"
  shows "removeModel stringify wanted st =
     st\<lparr>selectedModels := xs @ zs,
        localStorage := (localStorage st)(''selectedModels'' \<mapsto> stringify (xs @ zs))\<rparr>"
proof -
  have i: "findIndex (\<lambda>m. modelName m = wanted) (xs @ y # zs) = int (length xs)"
    using assms(2,3) by (rule findIndex_first)
  show ?thesis
    by (simp add: removeModel_def Let_def assms(1) i slice_take slice_from_drop)
qed

lemma in_sync_written:
  "round_trips stringify denote ms \<Longrightarrow>
   in_sync denote (st\<lparr>selectedModels := ms,
                      localStorage := (localStorage st)(''selectedModels'' \<mapsto> stringify ms)\<rparr>)"
  by (auto simp: in_sync_def round_trips_def loadModels_def initialState_def JSON_parse_def
      split: if_splits dest: JSON_text_nonempty)

lemma in_sync_cleared: "in_sync denote (clearModels st)"
  by (simp add: in_sync_def loadModels_def initialState_def clearModels_def)

lemma evaluate_models_eq:
  "evaluate_models env d p i ms (rs, cs) =
     (rs @ map (\<lambda>(j, m). fst (evaluate_model env j d p m)) (enumerate i ms),
      cs @ concat (map (\<lambda>(j, m). snd (evaluate_model env j d p m)) (enumerate i ms)))"
  by (induction ms arbitrary: i rs cs) (auto split: prod.splits)

lemma handleEvaluate_results:
  "ms \<noteq> [] \<Longrightarrow>
   comparisonResults (fst (handleEvaluate env d p ms page)) =
     map (\<lambda>(j, m). fst (evaluate_model env j d p m)) (enumerate 0 ms)"
  by (simp add: handleEvaluate_def evaluate_models_eq split: prod.splits)

lemma handleEvaluate_calls:
  "snd (handleEvaluate env d p ms page) =
     concat (map (\<lambda>(j, m). snd (evaluate_model env j d p m)) (enumerate 0 ms))"
  by (simp add: handleEvaluate_def evaluate_models_eq split: prod.splits)

lemma evaluate_model_name: "modelName (fst (evaluate_model env i d p m)) = modelName m"
  by (simp add: evaluate_model_def split: prod.splits sum.splits)

lemma evaluate_model_error:
  "(error (fst (evaluate_model env i d p m)) \<noteq> None) = evaluation_fails env i d p m"
  by (simp add: evaluate_model_def evaluation_fails_def split: prod.splits sum.splits)

lemma evaluate_model_error_zero:
  "error (fst (evaluate_model env i d p m)) \<noteq> None \<Longrightarrow>
   metrics (fst (evaluate_model env i d p m)) = Benchmark zero_metrics"
  by (simp add: evaluate_model_def split: prod.splits sum.splits)

lemma no_dataset_no_calls:
  "d = None \<or> p = None \<or> p = Some [] \<Longrightarrow> snd (evaluate_model env i d p m) = []"
  by (auto simp: evaluate_model_def model_metrics_def split: prod.splits sum.splits option.splits)

lemma evaluation_fails_iff:
  "evaluation_fails env i dataset datasetPath m =
     (fromLibrary m \<noteq> Some True \<and>
      (dataset = None \<or> datasetPath = None \<or> datasetPath = Some [] \<or>
       (\<forall>em. evaluateModel_reply env i \<noteq> Replied (Some em))))"
  by (auto simp: evaluation_fails_def model_metrics_def
      split: option.splits api_reply.splits)

lemma map_enumerate_names:
  "map modelName (map (\<lambda>(j, m). fst (evaluate_model env j d p m)) (enumerate i ms)) = map modelName ms"
  by (induction ms arbitrary: i) (auto simp: evaluate_model_name)

lemma zero_metrics_fields:
  "zero_metrics = \<lparr>accuracy = 0, f1Score = 0, precision = 0, recall = 0, latency = 0,
      throughput = 0, memoryUsage = 0, modelSize = 0\<rparr>"
  by (simp add: zero_metrics_def)

lemma sample_batch:
  "comparisonResults
     (fst (handleEvaluate sample_env (Some iris_csv) (Some ''uploads/datasets/iris.csv'')
            [library_resnet50, uploaded_resnet, uploaded_vgg16] blank_page)) =
   [fst (evaluate_model sample_env 0 (Some iris_csv) (Some ''uploads/datasets/iris.csv'') library_resnet50),
    fst (evaluate_model sample_env 1 (Some iris_csv) (Some ''uploads/datasets/iris.csv'') uploaded_resnet),
    fst (evaluate_model sample_env 2 (Some iris_csv) (Some ''uploads/datasets/iris.csv'') uploaded_vgg16)]"
  by (simp add: handleEvaluate_results eval_nat_numeral)

lemma sample_failed_result:
  "fst (evaluate_model sample_env (Suc 0) (Some iris_csv) (Some ''uploads/datasets/iris.csv'') uploaded_resnet) =
     \<lparr>modelName = ''resnet.pkl'', modelId = Some ''uploads/resnet.pkl'',
      metrics = Benchmark zero_metrics, timestamp = ''2024-03-01T12:00:00.000Z'',
      fromLibrary = Some False,
      error = Some ''Failed to evaluate model: Failed to evaluate resnet.pkl: Failed to fetch''\<rparr>"
  by (simp add: evaluate_model_def model_metrics_def uploaded_resnet_def sample_env_def)

lemma endsWith_iff: "endsWith s t = (\<exists>z. s = z @ t)"
proof
  assume "endsWith s t"
  then have "s = take (length s - length t) s @ t"
    by (metis append_take_drop_id endsWith_def)
  then show "\<exists>z. s = z @ t" ..
next
  assume "\<exists>z. s = z @ t"
  then show "endsWith s t" by (auto simp: endsWith_def)
qed

lemma toString_small: "n < 10 \<Longrightarrow> toString n = [digit_char n]"
  by (simp add: toString.simps)

lemma toString_large: "10 \<le> n \<Longrightarrow> toString n = toString (n div 10) @ [digit_char (n mod 10)]"
  by (subst toString.simps) simp

lemmas toString_eval = toString_small toString_large digit_char_def

lemmas string_eval = endsWith_def toLowerCase_def toLowerCase_char_def

lemma toLowerCase_char_dot: "(toLowerCase_char c = CHR ''.'') = (c = CHR ''.'')"
  by (simp add: toLowerCase_char_def)

lemma dot_in_toLowerCase: "(CHR ''.'' \<in> set (toLowerCase s)) = (CHR ''.'' \<in> set s)"
proof (induction s)
  case Nil
  show ?case by (simp add: toLowerCase_def)
next
  case (Cons x xs)
  then show ?case
    using toLowerCase_char_dot [of x] by (auto simp: toLowerCase_def)
qed

lemma takeWhile_until:
  "c \<notin> set xs \<Longrightarrow> takeWhile (\<lambda>x. x \<noteq> c) (xs @ c # ys) = xs"
  by (induction xs) auto

lemma substring_lastIndexOf_split:
  assumes "c \<notin> set b"
  shows "substring (a @ c # b) (lastIndexOf (a @ c # b) c) = c # b"
proof -
  have tw: "takeWhile (\<lambda>x. x \<noteq> c) (rev b @ c # rev a) = rev b"
    using assms by (simp add: takeWhile_until)
  have "lastIndexOf (a @ c # b) c = int (length a)"
    by (simp add: lastIndexOf_def tw)
  then show ?thesis by (simp add: substring_def)
qed

lemma substring_lastIndexOf_none:
  "c \<notin> set s \<Longrightarrow> substring s (lastIndexOf s c) = s"
  by (simp add: lastIndexOf_def substring_def)

lemma split_last_occurrence:
  "c \<in> set s \<Longrightarrow> \<exists>a b. s = a @ c # b \<and> c \<notin> set b"
  by (metis split_list_last)

lemma endsWith_after_dot:
  assumes "c \<notin> set b" "c \<notin> set t"
  shows "endsWith (a @ c # b) (c # t) = (b = t)"
proof
  assume "endsWith (a @ c # b) (c # t)"
  then obtain z where z: "a @ c # b = z @ c # t" by (auto simp: endsWith_iff)
  have "rev b = takeWhile (\<lambda>x. x \<noteq> c) (rev (a @ c # b))"
    using assms(1) by (simp add: takeWhile_until)
  also have "\<dots> = takeWhile (\<lambda>x. x \<noteq> c) (rev (z @ c # t))" by (simp only: z)
  also have "\<dots> = rev t"
    using assms(2) by (simp add: takeWhile_until)
  finally show "b = t" by simp
next
  assume "b = t"
  then show "endsWith (a @ c # b) (c # t)" by (auto simp: endsWith_iff)
qed

lemma endsWith_needs_dot: "endsWith s (c # t) \<Longrightarrow> c \<in> set s"
  by (auto simp: endsWith_iff)

lemma extension_test:
  assumes "CHR ''.'' \<notin> set t"
  shows "(toLowerCase (substring s (lastIndexOf s (CHR ''.''))) = CHR ''.'' # t) =
         endsWith (toLowerCase s) (CHR ''.'' # t)"
proof (cases "CHR ''.'' \<in> set s")
  case True
  then obtain a b where s: "s = a @ CHR ''.'' # b" and b: "CHR ''.'' \<notin> set b"
    using split_last_occurrence by metis
  have lb: "CHR ''.'' \<notin> set (toLowerCase b)" using b by (simp add: dot_in_toLowerCase)
  have low: "toLowerCase s = toLowerCase a @ CHR ''.'' # toLowerCase b"
    by (simp add: s toLowerCase_def toLowerCase_char_def)
  have "toLowerCase (substring s (lastIndexOf s (CHR ''.''))) = CHR ''.'' # toLowerCase b"
    using substring_lastIndexOf_split [OF b, of a]
    by (simp add: s toLowerCase_def toLowerCase_char_def)
  then show ?thesis
    using endsWith_after_dot [OF lb assms, of "toLowerCase a"] by (simp add: low)
next
  case False
  then have "CHR ''.'' \<notin> set (toLowerCase s)" by (simp add: dot_in_toLowerCase)
  then have "toLowerCase s \<noteq> CHR ''.'' # t" "\<not> endsWith (toLowerCase s) (CHR ''.'' # t)"
    using endsWith_needs_dot by fastforce+
  then show ?thesis using False by (simp add: substring_lastIndexOf_none)
qed

lemma has_valid_type_iff:
  "has_valid_type n =
     (endsWith (toLowerCase n) ''.csv'' \<or> endsWith (toLowerCase n) ''.xlsx'' \<or>
      endsWith (toLowerCase n) ''.xls'')"
  using extension_test [of "''csv''" n] extension_test [of "''xlsx''" n]
    extension_test [of "''xls''" n]
  by (auto simp: has_valid_type_def Let_def)


lemma split_no_separator: "c \<notin> set s \<Longrightarrow> split s c = [s]"
  by (induction s) auto

lemma split_nonempty: "split s c \<noteq> []"
  by (induction s) (auto split: list.splits)

lemma split_at_last: "c \<notin> set b \<Longrightarrow> split (a @ c # b) c = split a c @ [b]"
proof (induction a)
  case Nil
  then show ?case by (simp add: split_no_separator)
next
  case (Cons x a)
  then show ?case
    using split_nonempty [of a c] by (cases "split a c") auto
qed

lemma pop_split: "c \<notin> set b \<Longrightarrow> pop (split (a @ c # b) c) = Some b"
  by (simp add: split_at_last pop_def)

lemma validateDataset_dotted:
  assumes "CHR ''.'' \<in> set (File.name f)"
  shows "isValid (validateDataset (Some f)) =
     (endsWith (toLowerCase (File.name f)) ''.csv'' \<or> endsWith (toLowerCase (File.name f)) ''.xlsx'')"
proof -
  obtain a b where n: "File.name f = a @ CHR ''.'' # b" and b: "CHR ''.'' \<notin> set b"
    using split_last_occurrence [OF assms] by metis
  have lb: "CHR ''.'' \<notin> set (toLowerCase b)" using b by (simp add: dot_in_toLowerCase)
  have low: "toLowerCase (File.name f) = toLowerCase a @ CHR ''.'' # toLowerCase b"
    by (simp add: n toLowerCase_def toLowerCase_char_def)
  have v: "isValid (validateDataset (Some f)) = (toLowerCase b = ''csv'' \<or> toLowerCase b = ''xlsx'')"
    using pop_split [OF b, of a] by (auto simp: validateDataset_def n Let_def)
  show ?thesis
    using endsWith_after_dot [OF lb, of "''csv''" "toLowerCase a"]
      endsWith_after_dot [OF lb, of "''xlsx''" "toLowerCase a"]
    by (simp add: v low)
qed

lemma form_parse_from_rejects_all:
  "list_all (\<lambda>p. \<not> accepts p) ps \<Longrightarrow>
     form_parse_from maxFileSize accepts ps totalFileSize files = Inr files"
  by (induction ps) auto

lemma dataset_handler_rejected:
  assumes "list_all (\<lambda>p. \<not> dataset_filter p) (parts req)"
  shows "snd (dataset_upload_handler dir now isoTime req fs) = fs"
    and "fst (dataset_upload_handler dir now isoTime req fs) \<noteq> Response 200 (DatasetBody info)"
  using form_parse_from_rejects_all [OF assms]
  by (simp_all add: dataset_upload_handler_def form_parse_def)

lemma toLowerCase_char_p:
  "(toLowerCase_char c = CHR ''p'') = (c = CHR ''p'' \<or> c = CHR ''P'')"
  by (simp add: toLowerCase_char_def)

lemma toLowerCase_char_k:
  "(toLowerCase_char c = CHR ''k'') = (c = CHR ''k'' \<or> c = CHR ''K'')"
  by (simp add: toLowerCase_char_def)

lemma toLowerCase_char_l:
  "(toLowerCase_char c = CHR ''l'') = (c = CHR ''l'' \<or> c = CHR ''L'')"
  by (simp add: toLowerCase_char_def)

lemma pkl_test_iff:
  "endsWith (toLowerCase n) ''.pkl'' =
     (\<exists>stem a b c. n = stem @ [CHR ''.'', a, b, c]
        \<and> (a = CHR ''p'' \<or> a = CHR ''P'') \<and> (b = CHR ''k'' \<or> b = CHR ''K'')
        \<and> (c = CHR ''l'' \<or> c = CHR ''L''))"
proof
  assume "endsWith (toLowerCase n) ''.pkl''"
  then obtain z where "map toLowerCase_char n = z @ ''.pkl''"
    by (auto simp: endsWith_iff toLowerCase_def)
  then obtain stem t where n: "n = stem @ t" and t: "map toLowerCase_char t = ''.pkl''"
    by (auto simp: map_eq_append_conv)
  from t obtain d a b c where "t = [d, a, b, c]" "toLowerCase_char d = CHR ''.''"
    "toLowerCase_char a = CHR ''p''" "toLowerCase_char b = CHR ''k''"
    "toLowerCase_char c = CHR ''l''"
    by (auto simp: map_eq_Cons_conv)
  then show "\<exists>stem a b c. n = stem @ [CHR ''.'', a, b, c]
        \<and> (a = CHR ''p'' \<or> a = CHR ''P'') \<and> (b = CHR ''k'' \<or> b = CHR ''K'')
        \<and> (c = CHR ''l'' \<or> c = CHR ''L'')"
    using n by (auto simp: toLowerCase_char_dot toLowerCase_char_p toLowerCase_char_k
        toLowerCase_char_l)
next
  assume "\<exists>stem a b c. n = stem @ [CHR ''.'', a, b, c]
        \<and> (a = CHR ''p'' \<or> a = CHR ''P'') \<and> (b = CHR ''k'' \<or> b = CHR ''K'')
        \<and> (c = CHR ''l'' \<or> c = CHR ''L'')"
  then obtain stem a b c where n: "n = stem @ [CHR ''.'', a, b, c]"
    and l: "toLowerCase_char a = CHR ''p''" "toLowerCase_char b = CHR ''k''"
      "toLowerCase_char c = CHR ''l''"
    by (auto simp: toLowerCase_char_p toLowerCase_char_k toLowerCase_char_l)
  have "toLowerCase n = toLowerCase stem @ ''.pkl''"
    using l toLowerCase_char_dot [of "CHR ''.''"] by (simp add: n toLowerCase_def)
  then show "endsWith (toLowerCase n) ''.pkl''"
    by (auto simp: endsWith_iff)
qed

lemmas path_eval = extname_def basename_def lastIndexOf_def Let_def

lemmas upload_eval = dataset_upload_handler_def model_upload_handler_def form_parse_def
  dataset_filter_def validateModelFile_def rename_def path_eval toString_eval string_eval

section \<open>The result store: loading, adding, removing, clearing\<close>

text \<open>
  Claim C1, as the code has it. On the initial load an absent \<open>selectedModels\<close> key or an
  empty stored string leaves the store empty, and a stored JSON text replaces the store
  by the collection it denotes. Any other stored string is not turned into an empty
  store: \<open>JSON.parse\<close> throws \<open>SyntaxError\<close> and the load effect lets it escape.
\<close>

theorem loadModels_outcomes:
  "(ls ''selectedModels'' = None \<or> ls ''selectedModels'' = Some [] \<longrightarrow>
      loadModels denote (initialState ls) = Inr (initialState ls))
   \<and> (ls ''selectedModels'' = Some s \<and> JSON_text s \<longrightarrow>
      loadModels denote (initialState ls) =
        Inr ((initialState ls)\<lparr>selectedModels := denote s\<rparr>))
   \<and> (ls ''selectedModels'' = Some s \<and> s \<noteq> [] \<and> \<not> JSON_text s \<longrightarrow>
      loadModels denote (initialState ls) = Inl SyntaxError)"
  by (auto simp: loadModels_def initialState_def JSON_parse_def dest: JSON_text_nonempty)

theorem loadModels_outcomes_witness:
  "loadModels sample_denote (initialState Map.empty) = Inr (initialState Map.empty)
   \<and> loadModels sample_denote (initialState [''selectedModels'' \<mapsto> resnet_text]) =
       Inr \<lparr>selectedModels = [uploaded_resnet],
            localStorage = [''selectedModels'' \<mapsto> resnet_text]\<rparr>
   \<and> loadModels sample_denote (initialState [''selectedModels'' \<mapsto> ''undefined'']) =
       Inl SyntaxError"
proof -
  have absent: "loadModels sample_denote (initialState Map.empty) = Inr (initialState Map.empty)"
    using loadModels_outcomes [where ls = Map.empty and s = "[]" and denote = sample_denote]
    by simp
  have "loadModels sample_denote (initialState [''selectedModels'' \<mapsto> resnet_text]) =
        Inr ((initialState [''selectedModels'' \<mapsto> resnet_text])
               \<lparr>selectedModels := sample_denote resnet_text\<rparr>)"
    using loadModels_outcomes [where ls = "[''selectedModels'' \<mapsto> resnet_text]"
        and s = resnet_text and denote = sample_denote] resnet_text_ok
    by simp
  then have stored: "loadModels sample_denote (initialState [''selectedModels'' \<mapsto> resnet_text]) =
        Inr \<lparr>selectedModels = [uploaded_resnet],
             localStorage = [''selectedModels'' \<mapsto> resnet_text]\<rparr>"
    by (simp add: sample_denote_def initialState_def)
  have "\<not> JSON_text ''undefined''"
    by (simp add: json_eval)
  then have corrupt:
    "loadModels sample_denote (initialState [''selectedModels'' \<mapsto> ''undefined'']) =
       Inl SyntaxError"
    using loadModels_outcomes [where ls = "[''selectedModels'' \<mapsto> ''undefined'']"
        and s = "''undefined''" and denote = sample_denote]
    by simp
  show ?thesis using absent stored corrupt by simp
qed

text \<open>
  Claim C1, as the specification states it, fails: a stored payload cut off in the middle
  is not read as the empty collection; the load throws.
\<close>

theorem loadModels_corrupt_counterexample:
  \<open>loadModels sample_denote
     (initialState [''selectedModels'' \<mapsto> ''[{"modelName":"resnet.pkl",'']) =
   Inl SyntaxError\<close>
  by (simp add: loadModels_def initialState_def JSON_parse_def json_eval)

text \<open>
  Claim C4. \<open>addModel\<close> keeps the first entry of a name: when the store already holds a
  result with the model's name, the call changes neither the list nor the storage; so
  adding a second result of the same name directly after the first changes nothing, and on
  an empty store the two calls leave exactly one entry, the first.
\<close>

theorem addModel_first_write_wins:
  "(list_ex (\<lambda>x. modelName x = modelName m) (selectedModels st) \<longrightarrow>
      addModel stringify m st = st)
   \<and> (modelName m' = modelName m \<longrightarrow>
        addModel stringify m' (addModel stringify m st) = addModel stringify m st)
   \<and> (modelName m' = modelName m \<longrightarrow>
        selectedModels (addModel stringify m' (addModel stringify m (initialState ls))) = [m])"
proof (intro conjI impI)
  assume "list_ex (\<lambda>x. modelName x = modelName m) (selectedModels st)"
  then show "addModel stringify m st = st" by (rule addModel_present)
next
  assume eq: "modelName m' = modelName m"
  have "list_ex (\<lambda>x. modelName x = modelName m') (selectedModels (addModel stringify m st))"
    using addModel_has [of m stringify st] by (simp add: eq)
  then show "addModel stringify m' (addModel stringify m st) = addModel stringify m st"
    by (rule addModel_present)
next
  assume eq: "modelName m' = modelName m"
  let ?st = "addModel stringify m (initialState ls)"
  have "list_ex (\<lambda>x. modelName x = modelName m') (selectedModels ?st)"
    using addModel_has [of m stringify "initialState ls"] by (simp add: eq)
  then have "addModel stringify m' ?st = ?st"
    by (rule addModel_present)
  then show "selectedModels (addModel stringify m' ?st) = [m]"
    by (simp add: addModel_def initialState_def Let_def)
qed

theorem addModel_first_write_wins_witness:
  "addModel sample_stringify (uploaded_resnet\<lparr>timestamp := ''2024-02-01T08:30:00.000Z''\<rparr>)
      \<lparr>selectedModels = [uploaded_resnet],
       localStorage = [''selectedModels'' \<mapsto> resnet_text]\<rparr> =
     \<lparr>selectedModels = [uploaded_resnet],
      localStorage = [''selectedModels'' \<mapsto> resnet_text]\<rparr>
   \<and> selectedModels
        (addModel sample_stringify (uploaded_resnet\<lparr>timestamp := ''2024-02-01T08:30:00.000Z''\<rparr>)
          (addModel sample_stringify uploaded_resnet (initialState Map.empty))) =
       [uploaded_resnet]"
proof -
  let ?again = "uploaded_resnet\<lparr>timestamp := ''2024-02-01T08:30:00.000Z''\<rparr>"
  let ?st = "\<lparr>selectedModels = [uploaded_resnet],
              localStorage = [''selectedModels'' \<mapsto> resnet_text]\<rparr>"
  have "list_ex (\<lambda>x. modelName x = modelName ?again) (selectedModels ?st)"
    by simp
  then have noop: "addModel sample_stringify ?again ?st = ?st"
    using addModel_first_write_wins [where m = ?again and st = ?st
        and stringify = sample_stringify and m' = uploaded_resnet and ls = Map.empty]
    by blast
  have "modelName ?again = modelName uploaded_resnet"
    by simp
  then have twice:
    "selectedModels (addModel sample_stringify ?again
        (addModel sample_stringify uploaded_resnet (initialState Map.empty))) = [uploaded_resnet]"
    using addModel_first_write_wins [where m = uploaded_resnet and st = "initialState Map.empty"
        and stringify = sample_stringify and m' = ?again and ls = Map.empty]
    by blast
  show ?thesis using noop twice by simp
qed

text \<open>
  Claim C9. \<open>removeModel\<close> leaves the state unchanged when no entry has the name (on
  the empty store in particular); otherwise it drops the first entry with that name, keeps
  every other entry in order, and writes the new list to the storage.
\<close>

theorem removeModel_first_match:
  "(\<not> list_ex (\<lambda>m. modelName m = wanted) (selectedModels st) \<longrightarrow>
      removeModel stringify wanted st = st)
   \<and> (selectedModels st = xs @ y # zs \<and> \<not> list_ex (\<lambda>m. modelName m = wanted) xs \<and>
      modelName y = wanted \<longrightarrow>
        removeModel stringify wanted st =
          st\<lparr>selectedModels := xs @ zs,
             localStorage := (localStorage st)(''selectedModels'' \<mapsto> stringify (xs @ zs))\<rparr>)
   \<and> removeModel stringify wanted (initialState ls) = initialState ls"
  using removeModel_absent [of wanted st stringify]
    removeModel_at [of st xs y zs wanted stringify]
    removeModel_absent [of wanted "initialState ls" stringify]
  by (simp add: initialState_def)

theorem removeModel_first_match_witness:
  "removeModel sample_stringify ''vgg16.pkl''
      \<lparr>selectedModels = [uploaded_resnet],
       localStorage = [''selectedModels'' \<mapsto> resnet_text]\<rparr> =
     \<lparr>selectedModels = [uploaded_resnet],
      localStorage = [''selectedModels'' \<mapsto> resnet_text]\<rparr>
   \<and> removeModel sample_stringify ''resnet.pkl''
      \<lparr>selectedModels =
         [uploaded_resnet\<lparr>modelName := ''vgg16.pkl''\<rparr>, uploaded_resnet,
          uploaded_resnet\<lparr>timestamp := ''2024-02-01T08:30:00.000Z''\<rparr>],
       localStorage = Map.empty\<rparr> =
     \<lparr>selectedModels =
        [uploaded_resnet\<lparr>modelName := ''vgg16.pkl''\<rparr>,
         uploaded_resnet\<lparr>timestamp := ''2024-02-01T08:30:00.000Z''\<rparr>],
      localStorage =
        [''selectedModels'' \<mapsto>
           sample_stringify
             [uploaded_resnet\<lparr>modelName := ''vgg16.pkl''\<rparr>,
              uploaded_resnet\<lparr>timestamp := ''2024-02-01T08:30:00.000Z''\<rparr>]]\<rparr>"
proof -
  let ?vgg = "uploaded_resnet\<lparr>modelName := ''vgg16.pkl''\<rparr>"
  let ?again = "uploaded_resnet\<lparr>timestamp := ''2024-02-01T08:30:00.000Z''\<rparr>"
  let ?st = "\<lparr>selectedModels = [uploaded_resnet],
              localStorage = [''selectedModels'' \<mapsto> resnet_text]\<rparr>"
  let ?st3 = "\<lparr>selectedModels = [?vgg, uploaded_resnet, ?again], localStorage = Map.empty\<rparr>"
  have "\<not> list_ex (\<lambda>m. modelName m = ''vgg16.pkl'') (selectedModels ?st)"
    by (simp add: uploaded_resnet_def)
  then have absent: "removeModel sample_stringify ''vgg16.pkl'' ?st = ?st"
    using removeModel_first_match [where wanted = "''vgg16.pkl''" and st = ?st
        and stringify = sample_stringify and xs = "[]" and y = uploaded_resnet and zs = "[]"
        and ls = Map.empty]
    by blast
  have "selectedModels ?st3 = [?vgg] @ uploaded_resnet # [?again]"
    and "\<not> list_ex (\<lambda>m. modelName m = ''resnet.pkl'') [?vgg]"
    and "modelName uploaded_resnet = ''resnet.pkl''"
    by (simp_all add: uploaded_resnet_def)
  then have "removeModel sample_stringify ''resnet.pkl'' ?st3 =
      ?st3\<lparr>selectedModels := [?vgg] @ [?again],
           localStorage :=
             (localStorage ?st3)(''selectedModels'' \<mapsto> sample_stringify ([?vgg] @ [?again]))\<rparr>"
    using removeModel_first_match [where wanted = "''resnet.pkl''" and st = ?st3
        and stringify = sample_stringify and xs = "[?vgg]" and y = uploaded_resnet
        and zs = "[?again]" and ls = Map.empty]
    by blast
  then have first: "removeModel sample_stringify ''resnet.pkl'' ?st3 =
      \<lparr>selectedModels = [?vgg, ?again],
       localStorage = [''selectedModels'' \<mapsto> sample_stringify [?vgg, ?again]]\<rparr>"
    by simp
  show ?thesis using absent first by simp
qed

text \<open>
  Claim C10. Suppose the list in memory is the collection a fresh load reads from the
  storage, and the platform's \<open>JSON.stringify\<close> and \<open>JSON.parse\<close> round-trip the lists
  that result. Then the state is still in step with the storage after \<open>addModel\<close>, after
  \<open>removeModel\<close> and after \<open>clearModels\<close>. A call of \<open>addModel\<close> or \<open>removeModel\<close>
  either changes nothing at all, storage included, or leaves the text of the new list
  under the key; \<open>clearModels\<close> removes the key.
\<close>

theorem store_stays_in_sync:
  assumes "in_sync denote st"
    and "round_trips stringify denote (selectedModels (addModel stringify m st))"
    and "round_trips stringify denote (selectedModels (removeModel stringify wanted st))"
  shows "in_sync denote (addModel stringify m st)
     \<and> in_sync denote (removeModel stringify wanted st)
     \<and> in_sync denote (clearModels st)
     \<and> (addModel stringify m st = st \<or>
          localStorage (addModel stringify m st) ''selectedModels'' =
            Some (stringify (selectedModels (addModel stringify m st))))
     \<and> (removeModel stringify wanted st = st \<or>
          localStorage (removeModel stringify wanted st) ''selectedModels'' =
            Some (stringify (selectedModels (removeModel stringify wanted st))))
     \<and> selectedModels (clearModels st) = []
     \<and> localStorage (clearModels st) ''selectedModels'' = None"
proof -
  have a: "in_sync denote (addModel stringify m st)"
  proof (cases "list_ex (\<lambda>x. modelName x = modelName m) (selectedModels st)")
    case True
    then show ?thesis using assms(1) by (simp add: addModel_present)
  next
    case False
    then show ?thesis
      using assms(2) in_sync_written [of stringify denote "selectedModels st @ [m]" st]
      by (simp add: addModel_fresh)
  qed
  have r: "in_sync denote (removeModel stringify wanted st)"
  proof (cases "findIndex (\<lambda>m. modelName m = wanted) (selectedModels st) = - 1")
    case True
    then show ?thesis using assms(1) by (simp add: removeModel_def Let_def)
  next
    case False
    then show ?thesis
      using assms(3) in_sync_written [of stringify denote _ st]
      by (simp add: removeModel_def Let_def)
  qed
  have c: "in_sync denote (clearModels st)"
    by (rule in_sync_cleared)
  show ?thesis using a r c
    by (simp add: addModel_def removeModel_def clearModels_def Let_def)
qed

theorem store_stays_in_sync_witness:
  "in_sync sample_denote (addModel sample_stringify uploaded_resnet (initialState Map.empty))
   \<and> localStorage (addModel sample_stringify uploaded_resnet (initialState Map.empty))
        ''selectedModels'' = Some resnet_text
   \<and> in_sync sample_denote
        (removeModel sample_stringify ''resnet.pkl''
          \<lparr>selectedModels = [uploaded_resnet],
           localStorage = [''selectedModels'' \<mapsto> resnet_text]\<rparr>)
   \<and> localStorage
        (removeModel sample_stringify ''resnet.pkl''
          \<lparr>selectedModels = [uploaded_resnet],
           localStorage = [''selectedModels'' \<mapsto> resnet_text]\<rparr>)
        ''selectedModels'' = Some ''[]''
   \<and> in_sync sample_denote
        (clearModels \<lparr>selectedModels = [uploaded_resnet],
                      localStorage = [''selectedModels'' \<mapsto> resnet_text]\<rparr>)"
proof -
  let ?st = "\<lparr>selectedModels = [uploaded_resnet],
              localStorage = [''selectedModels'' \<mapsto> resnet_text]\<rparr>"
  have s0: "in_sync sample_denote (initialState Map.empty)"
    by (simp add: in_sync_def loadModels_def initialState_def)
  have a0: "selectedModels (addModel sample_stringify uploaded_resnet (initialState Map.empty)) =
            [uploaded_resnet]"
    by (simp add: addModel_def initialState_def Let_def)
  have r0: "selectedModels (removeModel sample_stringify ''resnet.pkl'' (initialState Map.empty)) =
            []"
    by (simp add: removeModel_def initialState_def Let_def)
  have s1: "in_sync sample_denote ?st"
    using JSON_text_nonempty [OF resnet_text_ok]
    by (simp add: in_sync_def loadModels_def initialState_def JSON_parse_def resnet_text_ok
        sample_denote_def)
  have a1: "selectedModels (addModel sample_stringify uploaded_resnet ?st) = [uploaded_resnet]"
    by (simp add: addModel_def Let_def)
  have r1: "selectedModels (removeModel sample_stringify ''resnet.pkl'' ?st) = []"
    by (simp add: removeModel_def Let_def uploaded_resnet_def slice_def slice_from_def
        slice_pos_def)
  have h0:
    "round_trips sample_stringify sample_denote
       (selectedModels (addModel sample_stringify uploaded_resnet (initialState Map.empty)))"
    "round_trips sample_stringify sample_denote
       (selectedModels (removeModel sample_stringify ''resnet.pkl'' (initialState Map.empty)))"
    by (simp_all add: a0 r0 sample_round_trip_resnet sample_round_trip_empty)
  have h1:
    "round_trips sample_stringify sample_denote
       (selectedModels (addModel sample_stringify uploaded_resnet ?st))"
    "round_trips sample_stringify sample_denote
       (selectedModels (removeModel sample_stringify ''resnet.pkl'' ?st))"
    by (simp_all add: a1 r1 sample_round_trip_resnet sample_round_trip_empty)
  note w0 = store_stays_in_sync [OF s0 h0]
  note w1 = store_stays_in_sync [OF s1 h1]
  have "addModel sample_stringify uploaded_resnet (initialState Map.empty) \<noteq>
        initialState Map.empty"
    using a0 by (auto simp: initialState_def)
  with w0 have written0:
    "localStorage (addModel sample_stringify uploaded_resnet (initialState Map.empty))
       ''selectedModels'' = Some resnet_text"
    by (simp add: a0 sample_stringify_def)
  have "removeModel sample_stringify ''resnet.pkl'' ?st \<noteq> ?st"
    using r1 by auto
  with w1 have written1:
    "localStorage (removeModel sample_stringify ''resnet.pkl'' ?st) ''selectedModels'' =
       Some ''[]''"
    by (simp add: r1 sample_stringify_def)
  show ?thesis
    using w0 w1 written0 written1 by blast
qed

section \<open>Batch evaluation\<close>

text \<open>
  Claim C3. The evaluation of a model fails exactly when the model is not from the
  library and either the dataset is missing or the evaluation service does not answer
  with metrics. For a non-empty selection \<open>handleEvaluate\<close> produces one result per model,
  in the order of the selection, and the result at a position carries an \<open>error\<close>
  exactly when the evaluation of the model at that position failed: no failure ends the
  loop or drops or moves a result. In particular, for the selection \<open>[a, b, c]\<close> in which
  only the evaluation of \<open>b\<close> fails, the results are three, for \<open>a\<close>, \<open>b\<close> and \<open>c\<close> in
  this order, the second with an \<open>error\<close> and the other two without.
\<close>

theorem handleEvaluate_isolates_failures:
  "evaluation_fails env i dataset datasetPath m =
     (fromLibrary m \<noteq> Some True \<and>
      (dataset = None \<or> datasetPath = None \<or> datasetPath = Some [] \<or>
       (\<forall>em. evaluateModel_reply env i \<noteq> Replied (Some em))))
   \<and> (models \<noteq> [] \<longrightarrow>
      length (comparisonResults (fst (handleEvaluate env dataset datasetPath models page))) =
        length models
      \<and> map modelName (comparisonResults (fst (handleEvaluate env dataset datasetPath models page))) =
        map modelName models
      \<and> (\<forall>i < length models.
            (error (comparisonResults (fst (handleEvaluate env dataset datasetPath models page)) ! i)
               \<noteq> None) =
            evaluation_fails env i dataset datasetPath (models ! i)))
   \<and> (\<not> evaluation_fails env 0 dataset datasetPath a \<and> evaluation_fails env 1 dataset datasetPath b \<and>
      \<not> evaluation_fails env 2 dataset datasetPath c \<longrightarrow>
        (\<exists>ra rb rc.
           comparisonResults (fst (handleEvaluate env dataset datasetPath [a, b, c] page)) =
             [ra, rb, rc]
           \<and> modelName ra = modelName a \<and> error ra = None
           \<and> modelName rb = modelName b \<and> error rb \<noteq> None
           \<and> modelName rc = modelName c \<and> error rc = None))"
proof (intro conjI impI)
  show "evaluation_fails env i dataset datasetPath m =
     (fromLibrary m \<noteq> Some True \<and>
      (dataset = None \<or> datasetPath = None \<or> datasetPath = Some [] \<or>
       (\<forall>em. evaluateModel_reply env i \<noteq> Replied (Some em))))"
    by (rule evaluation_fails_iff)
next
  assume ne: "models \<noteq> []"
  show "length (comparisonResults (fst (handleEvaluate env dataset datasetPath models page))) =
        length models"
    by (simp add: handleEvaluate_results [OF ne])
  show "map modelName (comparisonResults (fst (handleEvaluate env dataset datasetPath models page))) =
        map modelName models"
    by (simp only: handleEvaluate_results [OF ne] map_enumerate_names)
  show "\<forall>i < length models.
            (error (comparisonResults (fst (handleEvaluate env dataset datasetPath models page)) ! i)
               \<noteq> None) =
            evaluation_fails env i dataset datasetPath (models ! i)"
    by (simp add: handleEvaluate_results [OF ne] nth_enumerate_eq evaluate_model_error
        del: not_None_eq)
next
  assume h: "\<not> evaluation_fails env 0 dataset datasetPath a \<and> evaluation_fails env 1 dataset datasetPath b \<and>
      \<not> evaluation_fails env 2 dataset datasetPath c"
  have "comparisonResults (fst (handleEvaluate env dataset datasetPath [a, b, c] page)) =
      [fst (evaluate_model env 0 dataset datasetPath a), fst (evaluate_model env 1 dataset datasetPath b),
       fst (evaluate_model env 2 dataset datasetPath c)]"
    by (simp add: handleEvaluate_results eval_nat_numeral)
  then show "\<exists>ra rb rc.
           comparisonResults (fst (handleEvaluate env dataset datasetPath [a, b, c] page)) =
             [ra, rb, rc]
           \<and> modelName ra = modelName a \<and> error ra = None
           \<and> modelName rb = modelName b \<and> error rb \<noteq> None
           \<and> modelName rc = modelName c \<and> error rc = None"
    using h evaluate_model_error [of env 0 dataset datasetPath a]
      evaluate_model_error [of env 1 dataset datasetPath b]
      evaluate_model_error [of env 2 dataset datasetPath c]
    by (simp add: evaluate_model_name)
qed


theorem handleEvaluate_isolates_failures_witness:
  "\<not> evaluation_fails sample_env 0 (Some iris_csv) (Some ''uploads/datasets/iris.csv'')
        library_resnet50
   \<and> evaluation_fails sample_env 1 (Some iris_csv) (Some ''uploads/datasets/iris.csv'')
        uploaded_resnet
   \<and> \<not> evaluation_fails sample_env 2 (Some iris_csv) (Some ''uploads/datasets/iris.csv'')
        uploaded_vgg16
   \<and> (\<exists>ra rb rc.
         comparisonResults
           (fst (handleEvaluate sample_env (Some iris_csv) (Some ''uploads/datasets/iris.csv'')
                  [library_resnet50, uploaded_resnet, uploaded_vgg16] blank_page)) =
           [ra, rb, rc]
         \<and> modelName ra = modelName library_resnet50 \<and> error ra = None
         \<and> modelName rb = modelName uploaded_resnet \<and> error rb \<noteq> None
         \<and> modelName rc = modelName uploaded_vgg16 \<and> error rc = None)"
proof -
  note t = handleEvaluate_isolates_failures [where env = sample_env
      and dataset = "Some iris_csv" and datasetPath = "Some ''uploads/datasets/iris.csv''"
      and a = library_resnet50 and b = uploaded_resnet and c = uploaded_vgg16
      and page = blank_page and models = "[library_resnet50, uploaded_resnet, uploaded_vgg16]"]
  have a: "\<not> evaluation_fails sample_env 0 (Some iris_csv) (Some ''uploads/datasets/iris.csv'')
        library_resnet50"
    using t [where i = 0 and m = library_resnet50] by (simp add: library_resnet50_def)
  have "evaluateModel_reply sample_env 1 = Rejected ''Failed to fetch''"
    by (simp add: sample_env_def)
  then have b: "evaluation_fails sample_env 1 (Some iris_csv) (Some ''uploads/datasets/iris.csv'')
        uploaded_resnet"
    using t [where i = 1 and m = uploaded_resnet] by (simp add: uploaded_resnet_def)
  have "\<exists>em. evaluateModel_reply sample_env 2 = Replied (Some em)"
    by (simp add: sample_env_def)
  then have c: "\<not> evaluation_fails sample_env 2 (Some iris_csv) (Some ''uploads/datasets/iris.csv'')
        uploaded_vgg16"
    using t [where i = 2 and m = uploaded_vgg16] by simp
  show ?thesis
    using a b c t [where i = 0 and m = library_resnet50] by blast
qed

text \<open>
  Claim C7. A result of \<open>handleEvaluate\<close> whose \<open>error\<close> is set has all eight numbers of
  its metrics equal to zero: accuracy, F1 score, precision, recall, latency, throughput,
  memory usage and model size.
\<close>

theorem failed_results_have_zero_metrics:
  "(error (fst (evaluate_model env i dataset datasetPath m)) \<noteq> None \<longrightarrow>
      metrics (fst (evaluate_model env i dataset datasetPath m)) =
        Benchmark \<lparr>accuracy = 0, f1Score = 0, precision = 0, recall = 0, latency = 0,
                   throughput = 0, memoryUsage = 0, modelSize = 0\<rparr>)
   \<and> (models \<noteq> [] \<longrightarrow>
        (\<forall>r \<in> set (comparisonResults (fst (handleEvaluate env dataset datasetPath models page))).
           error r \<noteq> None \<longrightarrow>
           metrics r =
             Benchmark \<lparr>accuracy = 0, f1Score = 0, precision = 0, recall = 0, latency = 0,
                        throughput = 0, memoryUsage = 0, modelSize = 0\<rparr>))"
proof (intro conjI impI ballI)
  assume "error (fst (evaluate_model env i dataset datasetPath m)) \<noteq> None"
  then show "metrics (fst (evaluate_model env i dataset datasetPath m)) =
        Benchmark \<lparr>accuracy = 0, f1Score = 0, precision = 0, recall = 0, latency = 0,
                   throughput = 0, memoryUsage = 0, modelSize = 0\<rparr>"
    using evaluate_model_error_zero [of env i dataset datasetPath m]
    by (simp add: zero_metrics_fields)
next
  fix r
  assume ne: "models \<noteq> []"
    and r: "r \<in> set (comparisonResults (fst (handleEvaluate env dataset datasetPath models page)))"
    and e: "error r \<noteq> None"
  from r obtain j m' where "r = fst (evaluate_model env j dataset datasetPath m')"
    by (auto simp: handleEvaluate_results [OF ne])
  with e show "metrics r =
             Benchmark \<lparr>accuracy = 0, f1Score = 0, precision = 0, recall = 0, latency = 0,
                        throughput = 0, memoryUsage = 0, modelSize = 0\<rparr>"
    using evaluate_model_error_zero [of env j dataset datasetPath m']
    by (simp add: zero_metrics_fields)
qed

theorem failed_results_have_zero_metrics_witness:
  "\<lparr>modelName = ''resnet.pkl'', modelId = Some ''uploads/resnet.pkl'',
      metrics = Benchmark zero_metrics, timestamp = ''2024-03-01T12:00:00.000Z'',
      fromLibrary = Some False,
      error = Some ''Failed to evaluate model: Failed to evaluate resnet.pkl: Failed to fetch''\<rparr>
    \<in> set (comparisonResults
        (fst (handleEvaluate sample_env (Some iris_csv) (Some ''uploads/datasets/iris.csv'')
               [library_resnet50, uploaded_resnet, uploaded_vgg16] blank_page)))
   \<and> zero_metrics = \<lparr>accuracy = 0, f1Score = 0, precision = 0, recall = 0, latency = 0,
                      throughput = 0, memoryUsage = 0, modelSize = 0\<rparr>"
proof -
  let ?r = "\<lparr>modelName = ''resnet.pkl'', modelId = Some ''uploads/resnet.pkl'',
      metrics = Benchmark zero_metrics, timestamp = ''2024-03-01T12:00:00.000Z'',
      fromLibrary = Some False,
      error = Some ''Failed to evaluate model: Failed to evaluate resnet.pkl: Failed to fetch''\<rparr>"
  let ?ms = "[library_resnet50, uploaded_resnet, uploaded_vgg16]"
  have ne: "?ms \<noteq> []" by simp
  have mem: "?r \<in> set (comparisonResults
        (fst (handleEvaluate sample_env (Some iris_csv) (Some ''uploads/datasets/iris.csv'')
               ?ms blank_page)))"
    by (simp add: sample_batch sample_failed_result)
  have err: "error ?r \<noteq> None" by simp
  have "metrics ?r = Benchmark \<lparr>accuracy = 0, f1Score = 0, precision = 0, recall = 0, latency = 0,
                      throughput = 0, memoryUsage = 0, modelSize = 0\<rparr>"
    using failed_results_have_zero_metrics [where models = ?ms and env = sample_env
        and dataset = "Some iris_csv" and datasetPath = "Some ''uploads/datasets/iris.csv''"
        and page = blank_page] ne mem err
    by blast
  then show ?thesis using mem by simp
qed


text \<open>
  Claim C6, as the code has it. \<open>evaluateModel\<close> marks every result it returns, for a
  built-in model or not, with \<open>isSimulated = true\<close>. In \<open>handleEvaluate\<close> the result for a
  library model holds simulated metrics and the model's \<open>fromLibrary\<close> flag, is made
  without a call to the evaluation service, and has no \<open>isSimulated\<close> property: its
  properties are \<open>modelName\<close>, \<open>modelId\<close>, \<open>metrics\<close>, \<open>timestamp\<close> and \<open>fromLibrary\<close>.
  For a model that is not from the library, a missing dataset file or dataset path gives
  at once the result whose \<open>error\<close> asks for a dataset, with no call to the evaluation
  service; with the dataset missing, the whole batch makes no call.
\<close>

theorem evaluation_marking_and_fail_fast:
  "isSimulated (evaluateModel rnd model upload builtIn)
   \<and> (fromLibrary m = Some True \<longrightarrow>
        evaluate_model env i dataset datasetPath m =
          (\<lparr>modelName = modelName m, modelId = modelId m,
            metrics = Benchmark (simulated_metrics (Math_random env i)),
            timestamp = toISOString env i, fromLibrary = Some True, error = None\<rparr>, [])
        \<and> property_names (fst (evaluate_model env i dataset datasetPath m)) =
            [''modelName'', ''modelId'', ''metrics'', ''timestamp'', ''fromLibrary''])
   \<and> (fromLibrary m \<noteq> Some True \<and> (dataset = None \<or> datasetPath = None \<or> datasetPath = Some []) \<longrightarrow>
        evaluate_model env i dataset datasetPath m =
          (\<lparr>modelName = modelName m, modelId = modelId m, metrics = Benchmark zero_metrics,
            timestamp = toISOString env i, fromLibrary = fromLibrary m,
            error = Some (''Failed to evaluate model: '' @
                          ''Please upload a dataset before evaluating custom models'')\<rparr>, []))
   \<and> (dataset = None \<or> datasetPath = None \<or> datasetPath = Some [] \<longrightarrow>
        snd (handleEvaluate env dataset datasetPath models page) = [])"
proof (intro conjI impI)
  show "isSimulated (evaluateModel rnd model upload builtIn)"
    by (simp add: evaluateModel_def)
next
  assume lib: "fromLibrary m = Some True"
  show "evaluate_model env i dataset datasetPath m =
          (\<lparr>modelName = modelName m, modelId = modelId m,
            metrics = Benchmark (simulated_metrics (Math_random env i)),
            timestamp = toISOString env i, fromLibrary = Some True, error = None\<rparr>, [])"
    by (simp add: evaluate_model_def model_metrics_def lib)
  then show "property_names (fst (evaluate_model env i dataset datasetPath m)) =
            [''modelName'', ''modelId'', ''metrics'', ''timestamp'', ''fromLibrary'']"
    by (simp add: property_names_def)
next
  assume "fromLibrary m \<noteq> Some True \<and> (dataset = None \<or> datasetPath = None \<or> datasetPath = Some [])"
  then show "evaluate_model env i dataset datasetPath m =
          (\<lparr>modelName = modelName m, modelId = modelId m, metrics = Benchmark zero_metrics,
            timestamp = toISOString env i, fromLibrary = fromLibrary m,
            error = Some (''Failed to evaluate model: '' @
                          ''Please upload a dataset before evaluating custom models'')\<rparr>, [])"
    by (auto simp: evaluate_model_def model_metrics_def split: option.splits)
next
  assume "dataset = None \<or> datasetPath = None \<or> datasetPath = Some []"
  then have "\<And>j x. snd (evaluate_model env j dataset datasetPath x) = []"
    by (rule no_dataset_no_calls)
  then show "snd (handleEvaluate env dataset datasetPath models page) = []"
    by (simp add: handleEvaluate_calls split_def)
qed

theorem evaluation_marking_and_fail_fast_witness:
  "isSimulated (evaluateModel (\<lambda>k. 1 / 2) iris_csv iris_csv True)
   \<and> fst (evaluate_model sample_env 0 None None library_resnet50) =
       \<lparr>modelName = ''ResNet50'', modelId = None,
        metrics = Benchmark (simulated_metrics (\<lambda>k. 1 / 2)),
        timestamp = ''2024-03-01T12:00:00.000Z'', fromLibrary = Some True, error = None\<rparr>
   \<and> evaluate_model sample_env 0 (Some iris_csv) None uploaded_resnet =
       (\<lparr>modelName = ''resnet.pkl'', modelId = Some ''uploads/resnet.pkl'',
         metrics = Benchmark zero_metrics, timestamp = ''2024-03-01T12:00:00.000Z'',
         fromLibrary = Some False,
         error = Some ''Failed to evaluate model: Please upload a dataset before evaluating custom models''\<rparr>,
        [])
   \<and> snd (handleEvaluate sample_env (Some iris_csv) None
            [library_resnet50, uploaded_resnet, uploaded_vgg16] blank_page) = []"
proof -
  note t = evaluation_marking_and_fail_fast [where env = sample_env and i = 0
      and rnd = "\<lambda>k. 1 / 2" and model = iris_csv and upload = iris_csv and builtIn = True
      and dataset = "Some iris_csv" and datasetPath = None
      and models = "[library_resnet50, uploaded_resnet, uploaded_vgg16]" and page = blank_page]
  have lib: "fromLibrary library_resnet50 = Some True"
    by (simp add: library_resnet50_def)
  have cus: "fromLibrary uploaded_resnet \<noteq> Some True"
    by (simp add: uploaded_resnet_def)
  have 1: "isSimulated (evaluateModel (\<lambda>k. 1 / 2) iris_csv iris_csv True)"
    using t [where m = uploaded_resnet] by blast
  have 2: "fst (evaluate_model sample_env 0 None None library_resnet50) =
       \<lparr>modelName = ''ResNet50'', modelId = None,
        metrics = Benchmark (simulated_metrics (\<lambda>k. 1 / 2)),
        timestamp = ''2024-03-01T12:00:00.000Z'', fromLibrary = Some True, error = None\<rparr>"
    using evaluation_marking_and_fail_fast [where env = sample_env and i = 0
      and dataset = None and datasetPath = None and m = library_resnet50] lib
    by (simp add: library_resnet50_def sample_env_def)
  have 3: "evaluate_model sample_env 0 (Some iris_csv) None uploaded_resnet =
       (\<lparr>modelName = ''resnet.pkl'', modelId = Some ''uploads/resnet.pkl'',
         metrics = Benchmark zero_metrics, timestamp = ''2024-03-01T12:00:00.000Z'',
         fromLibrary = Some False,
         error = Some ''Failed to evaluate model: Please upload a dataset before evaluating custom models''\<rparr>,
        [])"
    using t [where m = uploaded_resnet] cus
    by (simp add: uploaded_resnet_def sample_env_def)
  have 4: "snd (handleEvaluate sample_env (Some iris_csv) None
            [library_resnet50, uploaded_resnet, uploaded_vgg16] blank_page) = []"
    using t [where m = uploaded_resnet] by blast
  show ?thesis using 1 2 3 4 by blast
qed

text \<open>
  Claim C6, as the specification states it, fails for \<open>handleEvaluate\<close>: the result for a
  library model is not marked \<open>isSimulated\<close>; it has no such property.
\<close>

theorem handleEvaluate_library_counterexample:
  "map property_names
     (comparisonResults (fst (handleEvaluate sample_env None None [library_resnet50] blank_page))) =
   [[''modelName'', ''modelId'', ''metrics'', ''timestamp'', ''fromLibrary'']]"
  by (simp add: handleEvaluate_def evaluate_model_def model_metrics_def property_names_def
      library_resnet50_def blank_page_def)

section \<open>Validation of files and the upload routes\<close>

text \<open>
  Claim C8, as the code has it. \<open>validateModelFile\<close> decides from the name and the size
  of the file alone: two files that agree in both get the same verdict, whatever their
  contents and declared type. The name is tested first, on its lower-cased form, and the
  size only when the name has passed. A file whose lower-cased name does not end in
  \<open>.pkl\<close> is rejected with the format error, whatever its size; a file whose lower-cased
  name ends in \<open>.pkl\<close> is rejected with the too-large error when it is larger than 500 MB
  (524288000 bytes) and accepted, with its name and size in the record returned, when it
  is at most that large. Letter case is ignored by the test of the name: a name passes
  exactly when its last four characters are a dot, \<open>p\<close> or \<open>P\<close>, \<open>k\<close> or \<open>K\<close>, and
  \<open>l\<close> or \<open>L\<close>. This last reading is for names of code units below 256; Unicode
  lower-casing adds U+212A KELVIN SIGN to the code units that count as \<open>k\<close>.
\<close>

theorem validateModelFile_by_name_and_size:
  "(endsWith (toLowerCase (File.name f)) ''.pkl'' =
      (\<exists>stem a b c. File.name f = stem @ [CHR ''.'', a, b, c]
         \<and> (a = CHR ''p'' \<or> a = CHR ''P'') \<and> (b = CHR ''k'' \<or> b = CHR ''K'')
         \<and> (c = CHR ''l'' \<or> c = CHR ''L'')))
   \<and> (\<not> endsWith (toLowerCase (File.name f)) ''.pkl'' \<longrightarrow>
      validateModelFile now isoTime f =
        Inl (ModelValidationError ''Invalid file format. Only .pkl files are supported.''))
   \<and> (endsWith (toLowerCase (File.name f)) ''.pkl'' \<and> 500 * 1024 * 1024 < File.size_bytes f \<longrightarrow>
      validateModelFile now isoTime f =
        Inl (ModelValidationError ''File size too large. Maximum size is 500MB.''))
   \<and> (endsWith (toLowerCase (File.name f)) ''.pkl'' \<and> File.size_bytes f \<le> 500 * 1024 * 1024 \<longrightarrow>
      validateModelFile now isoTime f =
        Inr \<lparr>ModelInfo.id_str = toString now, ModelInfo.name = File.name f,
             ModelInfo.format = ''pkl'', ModelInfo.size_bytes = File.size_bytes f,
             ModelInfo.timestamp = isoTime, ModelInfo.type_str = ''gpt-4''\<rparr>)
   \<and> (File.name f = File.name g \<and> File.size_bytes f = File.size_bytes g \<longrightarrow>
      validateModelFile now isoTime f = validateModelFile now isoTime g)"
proof (intro conjI)
  show "endsWith (toLowerCase (File.name f)) ''.pkl'' =
      (\<exists>stem a b c. File.name f = stem @ [CHR ''.'', a, b, c]
         \<and> (a = CHR ''p'' \<or> a = CHR ''P'') \<and> (b = CHR ''k'' \<or> b = CHR ''K'')
         \<and> (c = CHR ''l'' \<or> c = CHR ''L''))"
    by (rule pkl_test_iff)
qed (simp_all add: validateModelFile_def Let_def)

theorem validateModelFile_by_name_and_size_witness:
  "validateModelFile 1700000000000 upload_time notes_txt =
     Inl (ModelValidationError ''Invalid file format. Only .pkl files are supported.'')
   \<and> validateModelFile 1700000000000 upload_time big_pkl =
     Inl (ModelValidationError ''File size too large. Maximum size is 500MB.'')
   \<and> validateModelFile 1700000000000 upload_time model_pkl =
     Inr \<lparr>ModelInfo.id_str = ''1700000000000'', ModelInfo.name = ''Model.PKL'',
          ModelInfo.format = ''pkl'', ModelInfo.size_bytes = 524288000,
          ModelInfo.timestamp = upload_time, ModelInfo.type_str = ''gpt-4''\<rparr>
   \<and> validateModelFile 1700000000000 upload_time (model_pkl\<lparr>bytes := [128, 4]\<rparr>) =
     validateModelFile 1700000000000 upload_time model_pkl"
proof -
  note t = validateModelFile_by_name_and_size [where now = 1700000000000
      and isoTime = upload_time]
  have "\<not> endsWith (toLowerCase (File.name notes_txt)) ''.pkl''"
    by (simp add: notes_txt_def string_eval)
  then have 1: "validateModelFile 1700000000000 upload_time notes_txt =
     Inl (ModelValidationError ''Invalid file format. Only .pkl files are supported.'')"
    using t [where f = notes_txt and g = notes_txt] by blast
  have "endsWith (toLowerCase (File.name big_pkl)) ''.pkl'' \<and> 500 * 1024 * 1024 < File.size_bytes big_pkl"
    by (simp add: big_pkl_def string_eval)
  then have 2: "validateModelFile 1700000000000 upload_time big_pkl =
     Inl (ModelValidationError ''File size too large. Maximum size is 500MB.'')"
    using t [where f = big_pkl and g = big_pkl] by blast
  have "File.name model_pkl = ''Model'' @ [CHR ''.'', CHR ''P'', CHR ''K'', CHR ''L'']"
    by (simp add: model_pkl_def)
  then have "endsWith (toLowerCase (File.name model_pkl)) ''.pkl''"
    using t [where f = model_pkl and g = model_pkl] by blast
  moreover have "File.size_bytes model_pkl \<le> 500 * 1024 * 1024"
    by (simp add: model_pkl_def)
  ultimately have "validateModelFile 1700000000000 upload_time model_pkl =
     Inr \<lparr>ModelInfo.id_str = toString 1700000000000, ModelInfo.name = File.name model_pkl,
          ModelInfo.format = ''pkl'', ModelInfo.size_bytes = File.size_bytes model_pkl,
          ModelInfo.timestamp = upload_time, ModelInfo.type_str = ''gpt-4''\<rparr>"
    using t [where f = model_pkl and g = model_pkl] by blast
  then have 3: "validateModelFile 1700000000000 upload_time model_pkl =
     Inr \<lparr>ModelInfo.id_str = ''1700000000000'', ModelInfo.name = ''Model.PKL'',
          ModelInfo.format = ''pkl'', ModelInfo.size_bytes = 524288000,
          ModelInfo.timestamp = upload_time, ModelInfo.type_str = ''gpt-4''\<rparr>"
    by (simp add: model_pkl_def toString_eval)
  have "File.name (model_pkl\<lparr>bytes := [128, 4]\<rparr>) = File.name model_pkl \<and>
        File.size_bytes (model_pkl\<lparr>bytes := [128, 4]\<rparr>) = File.size_bytes model_pkl"
    by simp
  then have 4: "validateModelFile 1700000000000 upload_time (model_pkl\<lparr>bytes := [128, 4]\<rparr>) =
     validateModelFile 1700000000000 upload_time model_pkl"
    using t [where f = "model_pkl\<lparr>bytes := [128, 4]\<rparr>" and g = model_pkl] by blast
  show ?thesis using 1 2 3 4 by blast
qed

text \<open>
  Claim C8, as the specification states it, fails for \<open>validateModelFile\<close>. Not every
  file above the ceiling of 500 MB gets the too-large error: \<open>big.txt\<close> of 524288001
  bytes is rejected with the format error, as the name is tested before the size. And not
  every file whose name does not end in \<open>.pkl\<close> is rejected: \<open>Model.PKL\<close> of 524288000
  bytes is accepted, as the name is lower-cased before the test.
\<close>

theorem validateModelFile_oversize_counterexample:
  "500 * 1024 * 1024 < File.size_bytes big_txt
   \<and> validateModelFile 1700000000000 upload_time big_txt =
       Inl (ModelValidationError ''Invalid file format. Only .pkl files are supported.'')
   \<and> validateModelFile 1700000000000 upload_time big_txt \<noteq>
       Inl (ModelValidationError ''File size too large. Maximum size is 500MB.'')
   \<and> \<not> endsWith (File.name model_pkl) ''.pkl''
   \<and> validateModelFile 1700000000000 upload_time model_pkl =
       Inr \<lparr>ModelInfo.id_str = ''1700000000000'', ModelInfo.name = ''Model.PKL'',
            ModelInfo.format = ''pkl'', ModelInfo.size_bytes = 524288000,
            ModelInfo.timestamp = upload_time, ModelInfo.type_str = ''gpt-4''\<rparr>"
  by (simp add: validateModelFile_def big_txt_def model_pkl_def string_eval toString_eval)

text \<open>
  Claim C5, as the code has it. The uploader's \<open>handleDatasetUpload\<close> accepts exactly the
  names that end, letter case ignored, in \<open>.csv\<close>, \<open>.xlsx\<close> or \<open>.xls\<close>; for every other
  name it shows the format error and posts nothing to the server, and an accepted file is
  posted. The dataset route of the server stores nothing and answers without success when
  no file of the request has one of the three extensions. The comparison page's
  \<open>validateDataset\<close> accepts \<open>.csv\<close> and \<open>.xlsx\<close> only: a name with a dot is valid there
  exactly when it ends, letter case ignored, in \<open>.csv\<close> or \<open>.xlsx\<close>.
\<close>

theorem dataset_extension_checks:
  "has_valid_type n =
     (endsWith (toLowerCase n) ''.csv'' \<or> endsWith (toLowerCase n) ''.xlsx'' \<or>
      endsWith (toLowerCase n) ''.xls'')
   \<and> (\<not> has_valid_type (File.name f) \<longrightarrow>
        handleDatasetUpload fetch (Some f) st =
          (st\<lparr>UploaderState.error :=
               Some ''Invalid file format. Only .csv, .xlsx, and .xls files are supported.''\<rparr>,
           [OnUploadError
              ''Invalid file format. Only .csv, .xlsx, and .xls files are supported.'']))
   \<and> (has_valid_type (File.name f) \<longrightarrow>
        Posted f \<in> set (snd (handleDatasetUpload fetch (Some f) st)))
   \<and> (list_all (\<lambda>p. \<not> dataset_filter p) (parts req) \<longrightarrow>
        snd (dataset_upload_handler dir now isoTime req fs) = fs
        \<and> (\<forall>info. fst (dataset_upload_handler dir now isoTime req fs) \<noteq>
                    Response 200 (DatasetBody info)))
   \<and> (CHR ''.'' \<in> set (File.name f) \<longrightarrow>
        isValid (validateDataset (Some f)) =
          (endsWith (toLowerCase (File.name f)) ''.csv'' \<or>
           endsWith (toLowerCase (File.name f)) ''.xlsx''))"
proof (intro conjI impI allI)
  show "has_valid_type n =
     (endsWith (toLowerCase n) ''.csv'' \<or> endsWith (toLowerCase n) ''.xlsx'' \<or>
      endsWith (toLowerCase n) ''.xls'')"
    by (rule has_valid_type_iff)
next
  assume "\<not> has_valid_type (File.name f)"
  then show "handleDatasetUpload fetch (Some f) st =
          (st\<lparr>UploaderState.error :=
               Some ''Invalid file format. Only .csv, .xlsx, and .xls files are supported.''\<rparr>,
           [OnUploadError
              ''Invalid file format. Only .csv, .xlsx, and .xls files are supported.''])"
    by (simp add: handleDatasetUpload_def Let_def)
next
  assume "has_valid_type (File.name f)"
  then show "Posted f \<in> set (snd (handleDatasetUpload fetch (Some f) st))"
    by (simp add: handleDatasetUpload_def Let_def split: fetch_result.splits)
next
  assume r: "list_all (\<lambda>p. \<not> dataset_filter p) (parts req)"
  show "snd (dataset_upload_handler dir now isoTime req fs) = fs"
    using r by (rule dataset_handler_rejected)
  fix info
  show "fst (dataset_upload_handler dir now isoTime req fs) \<noteq> Response 200 (DatasetBody info)"
    using r by (rule dataset_handler_rejected)
next
  assume "CHR ''.'' \<in> set (File.name f)"
  then show "isValid (validateDataset (Some f)) =
          (endsWith (toLowerCase (File.name f)) ''.csv'' \<or>
           endsWith (toLowerCase (File.name f)) ''.xlsx'')"
    by (rule validateDataset_dotted)
qed

theorem dataset_extension_checks_witness:
  "has_valid_type ''iris.csv''
   \<and> handleDatasetUpload sample_fetch (Some photo_png) idle_uploader =
       (\<lparr>UploaderState.error =
           Some ''Invalid file format. Only .csv, .xlsx, and .xls files are supported.'',
         successMessage = None, UploaderState.loading = False\<rparr>,
        [OnUploadError ''Invalid file format. Only .csv, .xlsx, and .xls files are supported.''])
   \<and> Posted iris_csv \<in> set (snd (handleDatasetUpload sample_fetch (Some iris_csv) idle_uploader))
   \<and> snd (dataset_upload_handler ''uploads/datasets'' 1700000000000 upload_time photo_request
            Map.empty) = Map.empty
   \<and> isValid (validateDataset (Some iris_csv))"
proof -
  note t = dataset_extension_checks [where fetch = sample_fetch and st = idle_uploader
      and dir = "''uploads/datasets''" and now = 1700000000000 and isoTime = upload_time
      and req = photo_request and fs = Map.empty]
  have csv: "endsWith (toLowerCase ''iris.csv'') ''.csv''"
    by (simp add: string_eval)
  then have 1: "has_valid_type ''iris.csv''"
    using t [where n = "''iris.csv''" and f = iris_csv] by blast
  have "\<not> (endsWith (toLowerCase ''photo.png'') ''.csv'' \<or>
           endsWith (toLowerCase ''photo.png'') ''.xlsx'' \<or>
           endsWith (toLowerCase ''photo.png'') ''.xls'')"
    by (simp add: string_eval)
  then have "\<not> has_valid_type (File.name photo_png)"
    using t [where n = "''photo.png''" and f = photo_png] by (simp add: photo_png_def)
  then have "handleDatasetUpload sample_fetch (Some photo_png) idle_uploader =
       (idle_uploader\<lparr>UploaderState.error :=
           Some ''Invalid file format. Only .csv, .xlsx, and .xls files are supported.''\<rparr>,
        [OnUploadError ''Invalid file format. Only .csv, .xlsx, and .xls files are supported.''])"
    using t [where n = "''photo.png''" and f = photo_png] by blast
  then have 2: "handleDatasetUpload sample_fetch (Some photo_png) idle_uploader =
       (\<lparr>UploaderState.error =
           Some ''Invalid file format. Only .csv, .xlsx, and .xls files are supported.'',
         successMessage = None, UploaderState.loading = False\<rparr>,
        [OnUploadError ''Invalid file format. Only .csv, .xlsx, and .xls files are supported.''])"
    by (simp add: idle_uploader_def)
  have "has_valid_type (File.name iris_csv)"
    using 1 by (simp add: iris_csv_def)
  then have 3: "Posted iris_csv \<in> set (snd (handleDatasetUpload sample_fetch (Some iris_csv) idle_uploader))"
    using t [where n = "''iris.csv''" and f = iris_csv] by blast
  have "list_all (\<lambda>p. \<not> dataset_filter p) (parts photo_request)"
    by (simp add: dataset_filter_def photo_request_def photo_part_def path_eval toLowerCase_def
        toLowerCase_char_def)
  then have 4: "snd (dataset_upload_handler ''uploads/datasets'' 1700000000000 upload_time
            photo_request Map.empty) = Map.empty"
    using t [where n = "''iris.csv''" and f = iris_csv] by blast
  have "CHR ''.'' \<in> set (File.name iris_csv)"
    by (simp add: iris_csv_def)
  then have 5: "isValid (validateDataset (Some iris_csv))"
    using t [where n = "''iris.csv''" and f = iris_csv] csv by (simp add: iris_csv_def)
  show ?thesis using 1 2 3 4 5 by blast
qed


text \<open>
  Claim C5, as the specification states it, fails for \<open>validateDataset\<close>: a file with the
  extension \<open>.xls\<close> does not pass it.
\<close>

theorem validateDataset_xls_counterexample:
  "\<not> isValid (validateDataset (Some sales_xls))"
  by (simp add: validateDataset_def sales_xls_def pop_def Let_def toLowerCase_def
      toLowerCase_char_def)


text \<open>
  Claim C2 fails on the code. Both upload routes take the identifier of an upload from
  \<open>Date.now()\<close>, so two uploads handled in the same millisecond get the same
  identifier. Here the dataset route handles \<open>iris.csv\<close> and then \<open>wine.csv\<close> at the
  clock reading 1700000000000: both answers carry the identifier \<open>1700000000000\<close> and the
  file name \<open>dataset_1700000000000.csv\<close>, and the second upload replaces the contents
  stored by the first. The model route, through \<open>validateModelFile\<close>, does the same to
  \<open>resnet.pkl\<close> and \<open>vgg16.pkl\<close>.
\<close>

theorem upload_ids_collide:
  "dataset_upload_handler ''uploads/datasets'' 1700000000000 upload_time iris_request Map.empty =
     (Response 200
        (DatasetBody
           \<lparr>DatasetInfo.id_str = ''1700000000000'', filename = ''dataset_1700000000000.csv'',
            originalName = ''iris.csv'', DatasetInfo.size_bytes = 4,
            DatasetInfo.type_str = Some ''text/csv'', uploadedAt = upload_time\<rparr>),
      [''uploads/datasets/dataset_1700000000000.csv'' \<mapsto> [97, 44, 98, 10]])
   \<and> dataset_upload_handler ''uploads/datasets'' 1700000000000 upload_time wine_request
        [''uploads/datasets/dataset_1700000000000.csv'' \<mapsto> [97, 44, 98, 10]] =
     (Response 200
        (DatasetBody
           \<lparr>DatasetInfo.id_str = ''1700000000000'', filename = ''dataset_1700000000000.csv'',
            originalName = ''wine.csv'', DatasetInfo.size_bytes = 4,
            DatasetInfo.type_str = Some ''text/csv'', uploadedAt = upload_time\<rparr>),
      [''uploads/datasets/dataset_1700000000000.csv'' \<mapsto> [99, 44, 100, 10]])
   \<and> model_upload_handler ''uploads'' 1700000000000 upload_time resnet_request Map.empty =
     (Response 200
        (ModelBody
           \<lparr>ModelInfo.id_str = ''1700000000000'', ModelInfo.name = ''resnet.pkl'',
            ModelInfo.format = ''pkl'', ModelInfo.size_bytes = 3,
            ModelInfo.timestamp = upload_time, ModelInfo.type_str = ''gpt-4''\<rparr>),
      [''uploads/1700000000000.pkl'' \<mapsto> [128, 4, 149]])
   \<and> model_upload_handler ''uploads'' 1700000000000 upload_time vgg16_request
        [''uploads/1700000000000.pkl'' \<mapsto> [128, 4, 149]] =
     (Response 200
        (ModelBody
           \<lparr>ModelInfo.id_str = ''1700000000000'', ModelInfo.name = ''vgg16.pkl'',
            ModelInfo.format = ''pkl'', ModelInfo.size_bytes = 4,
            ModelInfo.timestamp = upload_time, ModelInfo.type_str = ''gpt-4''\<rparr>),
      [''uploads/1700000000000.pkl'' \<mapsto> [128, 4, 150, 7]])"
proof (intro conjI)
  show "dataset_upload_handler ''uploads/datasets'' 1700000000000 upload_time iris_request Map.empty =
     (Response 200
        (DatasetBody
           \<lparr>DatasetInfo.id_str = ''1700000000000'', filename = ''dataset_1700000000000.csv'',
            originalName = ''iris.csv'', DatasetInfo.size_bytes = 4,
            DatasetInfo.type_str = Some ''text/csv'', uploadedAt = upload_time\<rparr>),
      [''uploads/datasets/dataset_1700000000000.csv'' \<mapsto> [97, 44, 98, 10]])"
    by (simp add: upload_eval iris_request_def iris_part_def)
  show "dataset_upload_handler ''uploads/datasets'' 1700000000000 upload_time wine_request
        [''uploads/datasets/dataset_1700000000000.csv'' \<mapsto> [97, 44, 98, 10]] =
     (Response 200
        (DatasetBody
           \<lparr>DatasetInfo.id_str = ''1700000000000'', filename = ''dataset_1700000000000.csv'',
            originalName = ''wine.csv'', DatasetInfo.size_bytes = 4,
            DatasetInfo.type_str = Some ''text/csv'', uploadedAt = upload_time\<rparr>),
      [''uploads/datasets/dataset_1700000000000.csv'' \<mapsto> [99, 44, 100, 10]])"
    by (simp add: upload_eval wine_request_def wine_part_def)
  show "model_upload_handler ''uploads'' 1700000000000 upload_time resnet_request Map.empty =
     (Response 200
        (ModelBody
           \<lparr>ModelInfo.id_str = ''1700000000000'', ModelInfo.name = ''resnet.pkl'',
            ModelInfo.format = ''pkl'', ModelInfo.size_bytes = 3,
            ModelInfo.timestamp = upload_time, ModelInfo.type_str = ''gpt-4''\<rparr>),
      [''uploads/1700000000000.pkl'' \<mapsto> [128, 4, 149]])"
    by (simp add: upload_eval resnet_request_def)
  show "model_upload_handler ''uploads'' 1700000000000 upload_time vgg16_request
        [''uploads/1700000000000.pkl'' \<mapsto> [128, 4, 149]] =
     (Response 200
        (ModelBody
           \<lparr>ModelInfo.id_str = ''1700000000000'', ModelInfo.name = ''vgg16.pkl'',
            ModelInfo.format = ''pkl'', ModelInfo.size_bytes = 4,
            ModelInfo.timestamp = upload_time, ModelInfo.type_str = ''gpt-4''\<rparr>),
      [''uploads/1700000000000.pkl'' \<mapsto> [128, 4, 150, 7]])"
    by (simp add: upload_eval vgg16_request_def)
qed

end
